theory Spec2Isabelle
  imports Complex_Main
begin

chapter \<open>better-shop: endpoint registry and tenant resolution\<close>

text \<open>
  A shallow embedding of the service of this repository: the tenant resolver
  (\<open>src/shop/getShop.ts\<close>), the endpoint builders for the store, the products, the
  collections, the checkout and the domain utilities, and the assembled router
  (\<open>src/shop-service.ts\<close>). Three things lie outside the repository and are treated as
  follows. The storefront client and the utility functions of \<open>shop-client\<close> are
  parameters. The definitions of query and body are data, checked by a model of the
  arktype forms that the source uses. The router of \<open>better-call\<close> is modelled from the
  specification of the service.
\<close>

section \<open>JavaScript values\<close>

text \<open>
  The service is TypeScript running on untyped JavaScript values: query objects, JSON
  bodies, the objects handed to the storefront client. They are modelled by one datatype.
  Strings are lists of 8-bit characters, read as the code units U+0000 to U+00FF.

  A number \<open>Fin q\<close> stands for the double nearest to the rational \<open>q\<close> (the value that
  ECMAScript's rounding of a mathematical value yields); on the integers of magnitude up
  to \<open>2 ^ 53\<close>, page numbers and limits among them, that is \<open>q\<close> itself. The sign of
  zero is not kept.
\<close>

datatype jsnum = NaN | PosInfinity | NegInfinity | Fin rat

datatype jsval =
    JUndefined
  | JNull
  | JBool bool
  | JNum jsnum
  | JStr string
  | JArr "jsval list"
  | JObj "(string \<times> jsval) list"

text \<open>Property access \<open>v.k\<close> and \<open>v?.k\<close>: a missing key reads as \<open>undefined\<close>.\<close>

fun getProp :: "jsval \<Rightarrow> string \<Rightarrow> jsval" where
  "getProp (JObj kvs) k = (case map_of kvs k of None \<Rightarrow> JUndefined | Some v \<Rightarrow> v)"
| "getProp _ k = JUndefined"

text \<open>
  Truthiness, as tested by \<open>!v\<close> and \<open>v ? a : b\<close>. A finite number is falsy when it is
  zero as a double, that is when its magnitude is at most half the least subnormal.
\<close>

fun truthy :: "jsval \<Rightarrow> bool" where
  "truthy JUndefined = False"
| "truthy JNull = False"
| "truthy (JBool b) = b"
| "truthy (JNum NaN) = False"
| "truthy (JNum (Fin q)) = (\<not> \<bar>q\<bar> \<le> 1 / 2 ^ 1075)"
| "truthy (JNum _) = True"
| "truthy (JStr s) = (s \<noteq> [])"
| "truthy (JArr _) = True"
| "truthy (JObj _) = True"

subsection \<open>\<open>Number(v)\<close>\<close>

definition isDigit :: "char \<Rightarrow> bool" where
  "isDigit c = (c \<in> set ''0123456789'')"

definition isAlpha :: "char \<Rightarrow> bool" where
  "isAlpha c = (c \<in> set ''abcdefghijklmnopqrstuvwxyzABCDEFGHIJKLMNOPQRSTUVWXYZ'')"

definition isWhiteSpace :: "char \<Rightarrow> bool" where
  "isWhiteSpace c =
     (c \<in> set [CHR 0x09, CHR 0x0A, CHR 0x0B, CHR 0x0C, CHR 0x0D, CHR 0x20, CHR 0xA0])"

definition trim :: "string \<Rightarrow> string" where
  "trim s = rev (dropWhile isWhiteSpace (rev (dropWhile isWhiteSpace s)))"

definition digitValue :: "char \<Rightarrow> nat" where
  "digitValue c =
     (if isDigit c then of_char c - 48
      else if c \<in> set ''abcdef'' then of_char c - 87
      else of_char c - 55)"

definition digitsValue :: "nat \<Rightarrow> string \<Rightarrow> nat" where
  "digitsValue base ds = foldl (\<lambda>n c. base * n + digitValue c) 0 ds"

definition decimalDigits :: "string \<Rightarrow> int option" where
  "decimalDigits ds =
     (if ds \<noteq> [] \<and> list_all isDigit ds then Some (int (digitsValue 10 ds)) else None)"

text \<open>The exponent part of a decimal literal: nothing, or \<open>e\<close> or \<open>E\<close> and a signed integer.\<close>

definition exponentPart :: "string \<Rightarrow> int option" where
  "exponentPart r =
     (case r of
        [] \<Rightarrow> Some 0
      | c # r1 \<Rightarrow>
          if c = CHR ''e'' \<or> c = CHR ''E'' then
            (case r1 of
               [] \<Rightarrow> None
             | d # r2 \<Rightarrow>
                 if d = CHR ''+'' then decimalDigits r2
                 else if d = CHR ''-'' then map_option uminus (decimalDigits r2)
                 else decimalDigits r1)
          else None)"

definition scale10 :: "rat \<Rightarrow> int \<Rightarrow> rat" where
  "scale10 q e = (if 0 \<le> e then q * 10 ^ nat e else q / 10 ^ nat (- e))"

text \<open>
  An unsigned decimal literal: digits, an optional fraction, an optional exponent, with a
  digit before or after the point.
\<close>

definition unsignedDecimal :: "string \<Rightarrow> rat option" where
  "unsignedDecimal s =
     (let ip = takeWhile isDigit s;
          r1 = dropWhile isDigit s;
          dot = (r1 \<noteq> [] \<and> hd r1 = CHR ''.'');
          fp = (if dot then takeWhile isDigit (tl r1) else []);
          r2 = (if dot then dropWhile isDigit (tl r1) else r1)
      in if ip = [] \<and> fp = [] then None
         else (case exponentPart r2 of
                 None \<Rightarrow> None
               | Some e \<Rightarrow>
                   Some (scale10 (of_nat (digitsValue 10 (ip @ fp))) (e - int (length fp)))))"

text \<open>A binary, octal or hexadecimal integer literal; these take no sign.\<close>

definition nonDecimal :: "string \<Rightarrow> rat option" where
  "nonDecimal s =
     (case s of
        c0 # c1 # ds \<Rightarrow>
          if c0 = CHR ''0'' \<and> ds \<noteq> [] then
            (if (c1 = CHR ''x'' \<or> c1 = CHR ''X'')
                \<and> list_all (\<lambda>c. c \<in> set ''0123456789abcdefABCDEF'') ds
             then Some (of_nat (digitsValue 16 ds))
             else if (c1 = CHR ''o'' \<or> c1 = CHR ''O'') \<and> list_all (\<lambda>c. c \<in> set ''01234567'') ds
             then Some (of_nat (digitsValue 8 ds))
             else if (c1 = CHR ''b'' \<or> c1 = CHR ''B'') \<and> list_all (\<lambda>c. c \<in> set ''01'') ds
             then Some (of_nat (digitsValue 2 ds))
             else None)
          else None
      | _ \<Rightarrow> None)"

text \<open>
  \<open>Number(s)\<close> for a string: white space is trimmed, the empty string is \<open>0\<close>, a numeric
  literal is its value, and every other string is \<open>NaN\<close>.
\<close>

definition Number_str :: "string \<Rightarrow> jsnum" where
  "Number_str s =
     (let t = trim s in
      if t = [] then Fin 0
      else if t = ''Infinity'' \<or> t = ''+Infinity'' then PosInfinity
      else if t = ''-Infinity'' then NegInfinity
      else (case nonDecimal t of
              Some q \<Rightarrow> Fin q
            | None \<Rightarrow>
                if hd t = CHR ''+'' then
                  (case unsignedDecimal (tl t) of None \<Rightarrow> NaN | Some q \<Rightarrow> Fin q)
                else if hd t = CHR ''-'' then
                  (case unsignedDecimal (tl t) of None \<Rightarrow> NaN | Some q \<Rightarrow> Fin (- q))
                else (case unsignedDecimal t of None \<Rightarrow> NaN | Some q \<Rightarrow> Fin q)))"

text \<open>
  \<open>Number(v)\<close> for any value. An object converts through the string
  \<open>[object Object]\<close> and an array through the comma-joined strings of its elements, so
  an array of two or more elements is never numeric.
\<close>

fun Number_js :: "jsval \<Rightarrow> jsnum" where
  "Number_js JUndefined = NaN"
| "Number_js JNull = Fin 0"
| "Number_js (JBool b) = (if b then Fin 1 else Fin 0)"
| "Number_js (JNum n) = n"
| "Number_js (JStr s) = Number_str s"
| "Number_js (JObj _) = NaN"
| "Number_js (JArr []) = Fin 0"
| "Number_js (JArr [JUndefined]) = Fin 0"
| "Number_js (JArr [JNull]) = Fin 0"
| "Number_js (JArr [JBool b]) = NaN"
| "Number_js (JArr [JNum n]) = n"
| "Number_js (JArr [JStr s]) = Number_str s"
| "Number_js (JArr [JObj _]) = NaN"
| "Number_js (JArr [JArr ys]) = Number_js (JArr ys)"
| "Number_js (JArr (x # y # zs)) = NaN"

section \<open>Validation Layer\<close>

text \<open>
  The endpoints describe their query and body with arktype definitions. The forms that
  occur in the source are: \<open>"string"\<close>, \<open>"number"\<close>, \<open>"boolean"\<close>, \<open>"string.email"\<close>,
  a string literal such as \<open>'markdown'\<close>, a union \<open>a|b\<close>, \<open>.array()\<close>, and an object
  whose keys are required or, written \<open>"key?"\<close>, optional. Keys that a definition does
  not name are allowed and kept. \<open>"number"\<close> does not admit \<open>NaN\<close>, which no JSON body
  and no query string carries anyway. An object is a list of keys and values in which
  the first entry of a key counts.
\<close>

datatype schema =
    TString
  | TNumber
  | TBoolean
  | TStringEmail
  | TUnit string
  | TUnion schema schema
  | TArray schema
  | TObject "(string \<times> bool \<times> schema) list"

text \<open>
  Modelled from the spec: the format check behind arktype's \<open>"string.email"\<close> keyword is
  not in the repository; the spec asks for a "valid-email-format string". The check is
  the pattern \<open>^[\w%+.-]+@[\d.A-Za-z-]+\.[A-Za-z]{2,}$\<close>: a local part, one \<open>@\<close>, a
  domain, a dot, and a top-level name of two letters or more.
\<close>

definition string_email :: "string \<Rightarrow> bool" where
  "string_email s =
     (let local = takeWhile (\<lambda>c. c \<noteq> CHR ''@'') s;
          rest = dropWhile (\<lambda>c. c \<noteq> CHR ''@'') s;
          dom = tl rest;
          tld = rev (takeWhile (\<lambda>c. c \<noteq> CHR ''.'') (rev dom));
          pre = rev (dropWhile (\<lambda>c. c \<noteq> CHR ''.'') (rev dom))
      in local \<noteq> []
         \<and> list_all (\<lambda>c. isAlpha c \<or> isDigit c \<or> c \<in> set ''_%+.-'') local
         \<and> rest \<noteq> []
         \<and> pre \<noteq> [] \<and> butlast pre \<noteq> []
         \<and> list_all (\<lambda>c. isAlpha c \<or> isDigit c \<or> c \<in> set ''.-'') (butlast pre)
         \<and> 2 \<le> length tld \<and> list_all isAlpha tld)"

fun conforms :: "schema \<Rightarrow> jsval \<Rightarrow> bool" where
  "conforms TString v = (case v of JStr _ \<Rightarrow> True | _ \<Rightarrow> False)"
| "conforms TNumber v = (case v of JNum n \<Rightarrow> n \<noteq> NaN | _ \<Rightarrow> False)"
| "conforms TBoolean v = (case v of JBool _ \<Rightarrow> True | _ \<Rightarrow> False)"
| "conforms TStringEmail v = (case v of JStr s \<Rightarrow> string_email s | _ \<Rightarrow> False)"
| "conforms (TUnit l) v = (v = JStr l)"
| "conforms (TUnion a b) v = (conforms a v \<or> conforms b v)"
| "conforms (TArray a) v = (case v of JArr xs \<Rightarrow> list_all (conforms a) xs | _ \<Rightarrow> False)"
| "conforms (TObject fs) v =
     (case v of
        JObj kvs \<Rightarrow>
          list_all
            (\<lambda>(k, optional, s).
               case map_of kvs k of None \<Rightarrow> optional | Some x \<Rightarrow> conforms s x)
            fs
      | _ \<Rightarrow> False)"

section \<open>The storefront client\<close>

text \<open>
  The storefront client (\<open>ShopClient\<close> of the package \<open>shop-client\<close>) is an external
  collaborator: the service only calls it. It is a parameter of the model, a record of
  the capabilities that the handlers use. A capability that returns a promise takes the
  state of the outside world (the store, its caches) and gives back a result or a
  rejection and the new state. \<open>clearInfoCache\<close> and \<open>checkout.createUrl\<close> are
  synchronous: the first returns nothing and is a change of the state, the second returns
  the URL.
\<close>

datatype error = Error string

type_synonym 'w async = "'w \<Rightarrow> (error + jsval) \<times> 'w"

record 'w ShopClient =
  shop_getInfo :: "jsval \<Rightarrow> 'w async"
  shop_clearInfoCache :: "'w \<Rightarrow> 'w"
  shop_determineStoreType :: "jsval \<Rightarrow> 'w async"
  shop_products_all :: "jsval \<Rightarrow> 'w async"
  shop_products_paginated :: "jsval \<Rightarrow> 'w async"
  shop_products_showcased :: "'w async"
  shop_products_filter :: "'w async"
  shop_products_find :: "jsval \<Rightarrow> jsval \<Rightarrow> 'w async"
  shop_products_enriched :: "jsval \<Rightarrow> jsval \<Rightarrow> 'w async"
  shop_products_classify :: "jsval \<Rightarrow> jsval \<Rightarrow> 'w async"
  shop_products_generateSEOContent :: "jsval \<Rightarrow> jsval \<Rightarrow> 'w async"
  shop_collections_all :: "'w async"
  shop_collections_paginated :: "jsval \<Rightarrow> 'w async"
  shop_collections_showcased :: "'w async"
  shop_collections_find :: "jsval \<Rightarrow> 'w async"
  shop_collections_products_all :: "jsval \<Rightarrow> jsval \<Rightarrow> 'w async"
  shop_collections_products_paginated :: "jsval \<Rightarrow> jsval \<Rightarrow> 'w async"
  shop_collections_products_slugs :: "jsval \<Rightarrow> 'w async"
  shop_checkout_createUrl :: "jsval \<Rightarrow> jsval"

text \<open>
  Every use of a capability is recorded, with its arguments, in a log that is threaded
  through the handlers beside the state of the world; "the capability is not invoked"
  is a statement about this log.
\<close>

datatype call = Call string "jsval list"

type_synonym 'w io = "'w \<times> call list"

definition throw :: "error \<Rightarrow> 'w io \<Rightarrow> (error + 'a) \<times> 'w io" where
  "throw e st = (Inl e, st)"

definition await :: "string \<Rightarrow> jsval list \<Rightarrow> 'w async \<Rightarrow> 'w io \<Rightarrow> (error + jsval) \<times> 'w io" where
  "await name args f st =
     (case st of (w, cs) \<Rightarrow>
        (case f w of (r, w') \<Rightarrow> (r, (w', cs @ [Call name args]))))"

section \<open>Tenant Resolver (\<open>src/shop/getShop.ts\<close>)\<close>

text \<open>
  \<open>Headers\<close> is a list of name and value, names in lower case; \<open>get\<close> is \<open>null\<close> for a
  name that is not there. \<open>makeGetShop\<close> takes the options of the service and the
  constructor \<open>new ShopClient(domain, options)\<close>, and returns the resolver. \<open>!domain\<close>
  holds for a missing header and for an empty one.
\<close>

type_synonym Headers = "(string \<times> string) list"

definition headers_get :: "Headers \<Rightarrow> string \<Rightarrow> jsval" where
  "headers_get h name = (case map_of h name of None \<Rightarrow> JNull | Some v \<Rightarrow> JStr v)"

definition makeGetShop ::
  "(string \<Rightarrow> 'o \<Rightarrow> 'w ShopClient) \<Rightarrow> 'o \<Rightarrow> Headers option \<Rightarrow> error + 'w ShopClient" where
  "makeGetShop new_ShopClient options headers =
     (let domain = (case headers of
                      None \<Rightarrow> JUndefined
                    | Some h \<Rightarrow> headers_get h ''x-shop-domain'')
      in if \<not> truthy domain then Inl (Error ''x-shop-domain header is required'')
         else (case domain of
                 JStr d \<Rightarrow> Inr (new_ShopClient d options)
               | _ \<Rightarrow> Inl (Error ''x-shop-domain header is required'')))"

section \<open>Endpoints\<close>

text \<open>
  \<open>createEndpoint(path, {method, query, body}, handler)\<close> gives an operation definition:
  a path that may hold named parameters, a method (the field \<open>http_method\<close>), the
  optional definitions of the query
  and of the body, and the handler. A query definition may end in \<open>.pipe(f)\<close>; the
  handler then sees \<open>f\<close> of the validated query. The handler reads the context \<open>ctx\<close>.
  What a handler returns is serialised as JSON; the documentation route alone answers
  with a page.
\<close>

record ctx =
  headers :: "Headers option"
  params :: jsval
  query :: jsval
  body :: jsval

datatype reply = Json jsval | ReferencePage

record 'w endpoint =
  path :: string
  http_method :: string
  query_schema :: "(schema \<times> (jsval \<Rightarrow> jsval)) option"
  body_schema :: "schema option"
  handler :: "ctx \<Rightarrow> 'w io \<Rightarrow> (error + reply) \<times> 'w io"

definition returnJson :: "(error + jsval) \<times> 'w io \<Rightarrow> (error + reply) \<times> 'w io" where
  "returnJson x = (case x of (Inl e, st) \<Rightarrow> (Inl e, st) | (Inr v, st) \<Rightarrow> (Inr (Json v), st))"

text \<open>\<open>v ? Number(v) : undefined\<close>, the coercion of \<open>page\<close> and \<open>limit\<close>.\<close>

definition numberOrUndefined :: "jsval \<Rightarrow> jsval" where
  "numberOrUndefined v = (if truthy v then JNum (Number_js v) else JUndefined)"

subsection \<open>Store (\<open>src/shop/store.ts\<close>)\<close>

definition getInfo :: "(Headers option \<Rightarrow> error + 'w ShopClient) \<Rightarrow> 'w endpoint" where
  "getInfo getShop =
     \<lparr> path = ''/info'', http_method = ''GET'',
       query_schema = Some (TObject [(''force'', True, TString)],
         \<lambda>v. JObj [(''force'', JBool (getProp v ''force'' = JStr ''true''))]),
       body_schema = None,
       handler = (\<lambda>ctx st.
         case getShop (headers ctx) of
           Inl e \<Rightarrow> throw e st
         | Inr shop \<Rightarrow>
             (let arg = JObj [(''force'', getProp (query ctx) ''force'')]
              in returnJson (await ''getInfo'' [arg] (shop_getInfo shop arg) st))) \<rparr>"

definition clearInfoCache :: "(Headers option \<Rightarrow> error + 'w ShopClient) \<Rightarrow> 'w endpoint" where
  "clearInfoCache getShop =
     \<lparr> path = ''/info/clear-cache'', http_method = ''POST'',
       query_schema = None,
       body_schema = None,
       handler = (\<lambda>ctx st.
         case getShop (headers ctx) of
           Inl e \<Rightarrow> throw e st
         | Inr shop \<Rightarrow>
             (case st of (w, cs) \<Rightarrow>
                (Inr (Json (JObj [(''success'', JBool True)])),
                 (shop_clearInfoCache shop w, cs @ [Call ''clearInfoCache'' []])))) \<rparr>"

definition determineStoreType :: "(Headers option \<Rightarrow> error + 'w ShopClient) \<Rightarrow> 'w endpoint" where
  "determineStoreType getShop =
     \<lparr> path = ''/store-type'', http_method = ''POST'',
       query_schema = None,
       body_schema = Some (TObject
         [(''apiKey'', True, TString), (''model'', True, TString),
          (''maxShowcaseProducts'', True, TNumber),
          (''maxShowcaseCollections'', True, TNumber)]),
       handler = (\<lambda>ctx st.
         case getShop (headers ctx) of
           Inl e \<Rightarrow> throw e st
         | Inr shop \<Rightarrow>
             returnJson (await ''determineStoreType'' [body ctx]
               (shop_determineStoreType shop (body ctx)) st)) \<rparr>"

definition buildStoreEndpoints ::
  "(Headers option \<Rightarrow> error + 'w ShopClient) \<Rightarrow> (string \<times> 'w endpoint) list" where
  "buildStoreEndpoints getShop =
     [(''getInfo'', getInfo getShop),
      (''clearInfoCache'', clearInfoCache getShop),
      (''determineStoreType'', determineStoreType getShop)]"

subsection \<open>Products (\<open>src/shop/products.ts\<close>)\<close>

definition getAllProducts :: "(Headers option \<Rightarrow> error + 'w ShopClient) \<Rightarrow> 'w endpoint" where
  "getAllProducts getShop =
     \<lparr> path = ''/products/all'', http_method = ''GET'',
       query_schema = Some (TObject [(''currency'', True, TString)], \<lambda>v. v),
       body_schema = None,
       handler = (\<lambda>ctx st.
         case getShop (headers ctx) of
           Inl e \<Rightarrow> throw e st
         | Inr shop \<Rightarrow>
             (let arg = JObj [(''currency'', getProp (query ctx) ''currency'')]
              in returnJson (await ''products.all'' [arg] (shop_products_all shop arg) st))) \<rparr>"

definition getPaginatedProducts :: "(Headers option \<Rightarrow> error + 'w ShopClient) \<Rightarrow> 'w endpoint" where
  "getPaginatedProducts getShop =
     \<lparr> path = ''/products/paginated'', http_method = ''GET'',
       query_schema = Some (TObject
           [(''page'', True, TUnion TString TNumber),
            (''limit'', True, TUnion TString TNumber),
            (''currency'', True, TString)],
         \<lambda>v. JObj [(''page'', numberOrUndefined (getProp v ''page'')),
                    (''limit'', numberOrUndefined (getProp v ''limit'')),
                    (''currency'', getProp v ''currency'')]),
       body_schema = None,
       handler = (\<lambda>ctx st.
         case getShop (headers ctx) of
           Inl e \<Rightarrow> throw e st
         | Inr shop \<Rightarrow>
             (let arg = JObj [(''page'', getProp (query ctx) ''page''),
                              (''limit'', getProp (query ctx) ''limit''),
                              (''currency'', getProp (query ctx) ''currency'')]
              in returnJson (await ''products.paginated'' [arg]
                   (shop_products_paginated shop arg) st))) \<rparr>"

definition getShowcasedProducts :: "(Headers option \<Rightarrow> error + 'w ShopClient) \<Rightarrow> 'w endpoint" where
  "getShowcasedProducts getShop =
     \<lparr> path = ''/products/showcased'', http_method = ''GET'',
       query_schema = None,
       body_schema = None,
       handler = (\<lambda>ctx st.
         case getShop (headers ctx) of
           Inl e \<Rightarrow> throw e st
         | Inr shop \<Rightarrow>
             returnJson (await ''products.showcased'' [] (shop_products_showcased shop) st)) \<rparr>"

definition getProductFilters :: "(Headers option \<Rightarrow> error + 'w ShopClient) \<Rightarrow> 'w endpoint" where
  "getProductFilters getShop =
     \<lparr> path = ''/products/filters'', http_method = ''GET'',
       query_schema = None,
       body_schema = None,
       handler = (\<lambda>ctx st.
         case getShop (headers ctx) of
           Inl e \<Rightarrow> throw e st
         | Inr shop \<Rightarrow>
             returnJson (await ''products.filter'' [] (shop_products_filter shop) st)) \<rparr>"

definition getProduct :: "(Headers option \<Rightarrow> error + 'w ShopClient) \<Rightarrow> 'w endpoint" where
  "getProduct getShop =
     \<lparr> path = ''/products/:handle'', http_method = ''GET'',
       query_schema = Some (TObject [(''currency'', True, TString)], \<lambda>v. v),
       body_schema = None,
       handler = (\<lambda>ctx st.
         case getShop (headers ctx) of
           Inl e \<Rightarrow> throw e st
         | Inr shop \<Rightarrow>
             (let h = getProp (params ctx) ''handle'';
                  arg = JObj [(''currency'', getProp (query ctx) ''currency'')]
              in case await ''products.find'' [h, arg] (shop_products_find shop h arg) st of
                   (Inl e, st') \<Rightarrow> (Inl e, st')
                 | (Inr product, st') \<Rightarrow>
                     if \<not> truthy product then throw (Error ''Product not found'') st'
                     else (Inr (Json product), st'))) \<rparr>"

definition getEnrichedProduct :: "(Headers option \<Rightarrow> error + 'w ShopClient) \<Rightarrow> 'w endpoint" where
  "getEnrichedProduct getShop =
     \<lparr> path = ''/products/:handle/enriched'', http_method = ''POST'',
       query_schema = None,
       body_schema = Some (TObject
         [(''apiKey'', True, TString), (''useGfm'', True, TBoolean),
          (''inputType'', True, TUnion (TUnit ''markdown'') (TUnit ''html'')),
          (''model'', True, TString),
          (''outputFormat'', True, TUnion (TUnit ''markdown'') (TUnit ''json''))]),
       handler = (\<lambda>ctx st.
         case getShop (headers ctx) of
           Inl e \<Rightarrow> throw e st
         | Inr shop \<Rightarrow>
             (let h = getProp (params ctx) ''handle''
              in returnJson (await ''products.enriched'' [h, body ctx]
                   (shop_products_enriched shop h (body ctx)) st))) \<rparr>"

definition classifyProduct :: "(Headers option \<Rightarrow> error + 'w ShopClient) \<Rightarrow> 'w endpoint" where
  "classifyProduct getShop =
     \<lparr> path = ''/products/:handle/classify'', http_method = ''POST'',
       query_schema = None,
       body_schema = Some (TObject [(''apiKey'', True, TString), (''model'', True, TString)]),
       handler = (\<lambda>ctx st.
         case getShop (headers ctx) of
           Inl e \<Rightarrow> throw e st
         | Inr shop \<Rightarrow>
             (let h = getProp (params ctx) ''handle''
              in returnJson (await ''products.classify'' [h, body ctx]
                   (shop_products_classify shop h (body ctx)) st))) \<rparr>"

definition generateProductSEO :: "(Headers option \<Rightarrow> error + 'w ShopClient) \<Rightarrow> 'w endpoint" where
  "generateProductSEO getShop =
     \<lparr> path = ''/products/:handle/seo'', http_method = ''POST'',
       query_schema = None,
       body_schema = Some (TObject [(''apiKey'', True, TString), (''model'', True, TString)]),
       handler = (\<lambda>ctx st.
         case getShop (headers ctx) of
           Inl e \<Rightarrow> throw e st
         | Inr shop \<Rightarrow>
             (let h = getProp (params ctx) ''handle''
              in returnJson (await ''products.generateSEOContent'' [h, body ctx]
                   (shop_products_generateSEOContent shop h (body ctx)) st))) \<rparr>"

definition buildProductEndpoints ::
  "(Headers option \<Rightarrow> error + 'w ShopClient) \<Rightarrow> (string \<times> 'w endpoint) list" where
  "buildProductEndpoints getShop =
     [(''getAllProducts'', getAllProducts getShop),
      (''getPaginatedProducts'', getPaginatedProducts getShop),
      (''getShowcasedProducts'', getShowcasedProducts getShop),
      (''getProductFilters'', getProductFilters getShop),
      (''getProduct'', getProduct getShop),
      (''getEnrichedProduct'', getEnrichedProduct getShop),
      (''classifyProduct'', classifyProduct getShop),
      (''generateProductSEO'', generateProductSEO getShop)]"

subsection \<open>Collections (\<open>src/shop/collections.ts\<close>)\<close>

definition getAllCollections :: "(Headers option \<Rightarrow> error + 'w ShopClient) \<Rightarrow> 'w endpoint" where
  "getAllCollections getShop =
     \<lparr> path = ''/collections/all'', http_method = ''GET'',
       query_schema = None,
       body_schema = None,
       handler = (\<lambda>ctx st.
         case getShop (headers ctx) of
           Inl e \<Rightarrow> throw e st
         | Inr shop \<Rightarrow>
             returnJson (await ''collections.all'' [] (shop_collections_all shop) st)) \<rparr>"

definition getPaginatedCollections :: "(Headers option \<Rightarrow> error + 'w ShopClient) \<Rightarrow> 'w endpoint" where
  "getPaginatedCollections getShop =
     \<lparr> path = ''/collections/paginated'', http_method = ''GET'',
       query_schema = Some (TObject
           [(''page'', True, TUnion TString TNumber),
            (''limit'', True, TUnion TString TNumber)],
         \<lambda>v. JObj [(''page'', numberOrUndefined (getProp v ''page'')),
                    (''limit'', numberOrUndefined (getProp v ''limit''))]),
       body_schema = None,
       handler = (\<lambda>ctx st.
         case getShop (headers ctx) of
           Inl e \<Rightarrow> throw e st
         | Inr shop \<Rightarrow>
             (let arg = JObj [(''page'', getProp (query ctx) ''page''),
                              (''limit'', getProp (query ctx) ''limit'')]
              in returnJson (await ''collections.paginated'' [arg]
                   (shop_collections_paginated shop arg) st))) \<rparr>"

definition getShowcasedCollections :: "(Headers option \<Rightarrow> error + 'w ShopClient) \<Rightarrow> 'w endpoint" where
  "getShowcasedCollections getShop =
     \<lparr> path = ''/collections/showcased'', http_method = ''GET'',
       query_schema = None,
       body_schema = None,
       handler = (\<lambda>ctx st.
         case getShop (headers ctx) of
           Inl e \<Rightarrow> throw e st
         | Inr shop \<Rightarrow>
             returnJson (await ''collections.showcased'' []
               (shop_collections_showcased shop) st)) \<rparr>"

definition getCollection :: "(Headers option \<Rightarrow> error + 'w ShopClient) \<Rightarrow> 'w endpoint" where
  "getCollection getShop =
     \<lparr> path = ''/collections/:handle'', http_method = ''GET'',
       query_schema = None,
       body_schema = None,
       handler = (\<lambda>ctx st.
         case getShop (headers ctx) of
           Inl e \<Rightarrow> throw e st
         | Inr shop \<Rightarrow>
             (let h = getProp (params ctx) ''handle''
              in case await ''collections.find'' [h] (shop_collections_find shop h) st of
                   (Inl e, st') \<Rightarrow> (Inl e, st')
                 | (Inr collection, st') \<Rightarrow>
                     if \<not> truthy collection then throw (Error ''Collection not found'') st'
                     else (Inr (Json collection), st'))) \<rparr>"

definition getCollectionProductsAll :: "(Headers option \<Rightarrow> error + 'w ShopClient) \<Rightarrow> 'w endpoint" where
  "getCollectionProductsAll getShop =
     \<lparr> path = ''/collections/:handle/products/all'', http_method = ''GET'',
       query_schema = Some (TObject [(''currency'', True, TString)], \<lambda>v. v),
       body_schema = None,
       handler = (\<lambda>ctx st.
         case getShop (headers ctx) of
           Inl e \<Rightarrow> throw e st
         | Inr shop \<Rightarrow>
             (let h = getProp (params ctx) ''handle'';
                  arg = JObj [(''currency'', getProp (query ctx) ''currency'')]
              in returnJson (await ''collections.products.all'' [h, arg]
                   (shop_collections_products_all shop h arg) st))) \<rparr>"

definition getCollectionProductsPaginated ::
  "(Headers option \<Rightarrow> error + 'w ShopClient) \<Rightarrow> 'w endpoint" where
  "getCollectionProductsPaginated getShop =
     \<lparr> path = ''/collections/:handle/products/paginated'', http_method = ''GET'',
       query_schema = Some (TObject
           [(''page'', True, TUnion TString TNumber),
            (''limit'', True, TUnion TString TNumber),
            (''currency'', True, TString)],
         \<lambda>v. JObj [(''page'', numberOrUndefined (getProp v ''page'')),
                    (''limit'', numberOrUndefined (getProp v ''limit'')),
                    (''currency'', getProp v ''currency'')]),
       body_schema = None,
       handler = (\<lambda>ctx st.
         case getShop (headers ctx) of
           Inl e \<Rightarrow> throw e st
         | Inr shop \<Rightarrow>
             (let h = getProp (params ctx) ''handle'';
                  arg = JObj [(''page'', getProp (query ctx) ''page''),
                              (''limit'', getProp (query ctx) ''limit''),
                              (''currency'', getProp (query ctx) ''currency'')]
              in returnJson (await ''collections.products.paginated'' [h, arg]
                   (shop_collections_products_paginated shop h arg) st))) \<rparr>"

definition getCollectionProductSlugs :: "(Headers option \<Rightarrow> error + 'w ShopClient) \<Rightarrow> 'w endpoint" where
  "getCollectionProductSlugs getShop =
     \<lparr> path = ''/collections/:handle/slugs'', http_method = ''GET'',
       query_schema = None,
       body_schema = None,
       handler = (\<lambda>ctx st.
         case getShop (headers ctx) of
           Inl e \<Rightarrow> throw e st
         | Inr shop \<Rightarrow>
             (let h = getProp (params ctx) ''handle''
              in returnJson (await ''collections.products.slugs'' [h]
                   (shop_collections_products_slugs shop h) st))) \<rparr>"

definition buildCollectionEndpoints ::
  "(Headers option \<Rightarrow> error + 'w ShopClient) \<Rightarrow> (string \<times> 'w endpoint) list" where
  "buildCollectionEndpoints getShop =
     [(''getAllCollections'', getAllCollections getShop),
      (''getPaginatedCollections'', getPaginatedCollections getShop),
      (''getShowcasedCollections'', getShowcasedCollections getShop),
      (''getCollection'', getCollection getShop),
      (''getCollectionProductsAll'', getCollectionProductsAll getShop),
      (''getCollectionProductsPaginated'', getCollectionProductsPaginated getShop),
      (''getCollectionProductSlugs'', getCollectionProductSlugs getShop)]"

subsection \<open>Checkout (\<open>src/shop/checkout.ts\<close>)\<close>

definition checkoutBody :: schema where
  "checkoutBody = TObject
     [(''email'', False, TStringEmail),
      (''items'', False,
         TArray (TObject [(''productVariantId'', False, TString),
                          (''quantity'', False, TString)])),
      (''address'', False, TObject
         [(''firstName'', False, TString), (''lastName'', False, TString),
          (''address1'', False, TString), (''city'', False, TString),
          (''zip'', False, TString), (''country'', False, TString),
          (''province'', False, TString), (''phone'', False, TString)])]"

definition createCheckoutUrl :: "(Headers option \<Rightarrow> error + 'w ShopClient) \<Rightarrow> 'w endpoint" where
  "createCheckoutUrl getShop =
     \<lparr> path = ''/checkout/url'', http_method = ''POST'',
       query_schema = None,
       body_schema = Some checkoutBody,
       handler = (\<lambda>ctx st.
         case getShop (headers ctx) of
           Inl e \<Rightarrow> throw e st
         | Inr shop \<Rightarrow>
             (case st of (w, cs) \<Rightarrow>
                (Inr (Json (JObj [(''url'', shop_checkout_createUrl shop (body ctx))])),
                 (w, cs @ [Call ''checkout.createUrl'' [body ctx]])))) \<rparr>"

definition buildCheckoutEndpoints ::
  "(Headers option \<Rightarrow> error + 'w ShopClient) \<Rightarrow> (string \<times> 'w endpoint) list" where
  "buildCheckoutEndpoints getShop = [(''createCheckoutUrl'', createCheckoutUrl getShop)]"

subsection \<open>Domain utilities (\<open>src/shop/utils.ts\<close>)\<close>

text \<open>
  The utility endpoints use functions that \<open>shop-client\<close> exports and the global
  \<open>fetch\<close>; these are parameters. \<open>fetchText\<close> stands for fetching \<open>https://domain\<close>
  and reading the text of the response. \<open>a ?? b\<close> is \<open>b\<close> when \<open>a\<close> is \<open>null\<close> or
  \<open>undefined\<close>. The builder takes the resolver and does not use it.
\<close>

record 'w ShopUtils =
  sanitizeDomain :: "jsval \<Rightarrow> jsval"
  generateStoreSlug :: "jsval \<Rightarrow> jsval"
  genProductSlug :: "jsval \<Rightarrow> jsval"
  fetchText :: "jsval \<Rightarrow> 'w async"
  detectShopCountry :: "jsval \<Rightarrow> 'w async"

definition nullish :: "jsval \<Rightarrow> jsval \<Rightarrow> jsval" where
  "nullish a b = (if a = JUndefined \<or> a = JNull then b else a)"

definition ctx_header :: "ctx \<Rightarrow> string \<Rightarrow> jsval" where
  "ctx_header c name = (case headers c of None \<Rightarrow> JUndefined | Some h \<Rightarrow> headers_get h name)"

definition detectCountry :: "'w ShopUtils \<Rightarrow> 'w endpoint" where
  "detectCountry u =
     \<lparr> path = ''/utils/detect-country'', http_method = ''GET'',
       query_schema = None,
       body_schema = None,
       handler = (\<lambda>ctx st.
         let shopDomain = ctx_header ctx ''x-shop-domain''
         in if \<not> truthy shopDomain then throw (Error ''x-shop-domain header is required'') st
            else (let domain = sanitizeDomain u shopDomain
                  in case await ''fetch'' [domain] (fetchText u domain) st of
                       (Inl e, st') \<Rightarrow> (Inl e, st')
                     | (Inr html, st') \<Rightarrow>
                         returnJson (await ''detectShopCountry'' [html]
                           (detectShopCountry u html) st'))) \<rparr>"

definition getStoreSlug :: "'w ShopUtils \<Rightarrow> 'w endpoint" where
  "getStoreSlug u =
     \<lparr> path = ''/utils/store-slug'', http_method = ''GET'',
       query_schema = Some (TObject [(''domain'', True, TString)], \<lambda>v. v),
       body_schema = None,
       handler = (\<lambda>ctx st.
         let domainInput = nullish (getProp (query ctx) ''domain'')
                             (nullish (ctx_header ctx ''x-shop-domain'') (JStr []));
             domain = sanitizeDomain u domainInput
         in (Inr (Json (JObj [(''slug'', generateStoreSlug u domain)])), st)) \<rparr>"

definition getProductSlug :: "'w ShopUtils \<Rightarrow> 'w endpoint" where
  "getProductSlug u =
     \<lparr> path = ''/utils/product-slug'', http_method = ''GET'',
       query_schema = Some (TObject [(''handle'', False, TString), (''domain'', True, TString)],
         \<lambda>v. v),
       body_schema = None,
       handler = (\<lambda>ctx st.
         let domainInput = nullish (getProp (query ctx) ''domain'')
                             (nullish (ctx_header ctx ''x-shop-domain'') (JStr []));
             domain = sanitizeDomain u domainInput
         in (Inr (Json (JObj [(''slug'', genProductSlug u
               (JObj [(''handle'', getProp (query ctx) ''handle''),
                      (''storeDomain'', domain)]))])), st)) \<rparr>"

definition buildUtilsEndpoints ::
  "'w ShopUtils \<Rightarrow> (Headers option \<Rightarrow> error + 'w ShopClient) \<Rightarrow> (string \<times> 'w endpoint) list" where
  "buildUtilsEndpoints u getShop =
     [(''detectCountry'', detectCountry u),
      (''getStoreSlug'', getStoreSlug u),
      (''getProductSlug'', getProductSlug u)]"

section \<open>Router/Dispatcher\<close>

text \<open>
  Modelled from the spec: \<open>createRouter\<close> and the request handling of the router belong
  to the library \<open>better-call\<close>, which is not in the repository. The definitions of this
  section follow section 4.4 of the specification (the states of one request, route
  matching, the failure at construction on a repeated method and path) and its section 7
  (the status of each class of failure); the status 404 for a request that matches no
  route is the usual "not found". The tests of the repository agree where they speak:
  500 without the tenant header, 500 for a product that is not found, 400 for a checkout
  payload that does not validate.
\<close>

record request =
  req_method :: string
  req_path :: string
  req_headers :: Headers
  req_query :: "(string \<times> jsval) list"
  req_body :: jsval

type_synonym 'w router = "(string \<times> 'w endpoint) list"

record config =
  openapi_disabled :: bool
  openapi_path :: string

text \<open>
  Modelled from the spec: the Documentation Emitter. Unless it is disabled, the router
  serves the API reference at the configured path; that handler belongs to the library
  and never calls the resolver.
\<close>

definition openapi :: "string \<Rightarrow> 'w endpoint" where
  "openapi p =
     \<lparr> path = p, http_method = ''GET'',
       query_schema = None,
       body_schema = None,
       handler = (\<lambda>ctx st. (Inr ReferencePage, st)) \<rparr>"

text \<open>
  Modelled from the spec: "merging ... into a single registry at construction time must
  fail immediately ... if two builders define the same method+path pair".
\<close>

definition createRouter :: "(string \<times> 'w endpoint) list \<Rightarrow> config \<Rightarrow> error + 'w router" where
  "createRouter endpoints cfg =
     (let registry = (if openapi_disabled cfg then endpoints
                      else endpoints @ [(''openapi'', openapi (openapi_path cfg))])
      in if distinct (map (\<lambda>(name, e). (http_method e, path e)) registry) then Inr registry
         else Inl (Error ''duplicate method and path''))"

text \<open>
  Modelled from the spec: "exact method match plus path match allowing named segments;
  ... literal segments take precedence over parameterized ones when both could match".
  A path is cut at its slashes; a segment of a pattern that starts with a colon matches
  any segment that is not empty and binds it.
\<close>

fun splitOn :: "char \<Rightarrow> string \<Rightarrow> string list" where
  "splitOn c [] = [[]]"
| "splitOn c (x # xs) =
     (if x = c then [] # splitOn c xs
      else (case splitOn c xs of
              [] \<Rightarrow> [[x]]
            | s # ss \<Rightarrow> (x # s) # ss))"

definition segments :: "string \<Rightarrow> string list" where
  "segments p = (case splitOn CHR ''/'' p of [] # ss \<Rightarrow> ss | ss \<Rightarrow> ss)"

definition isParam :: "string \<Rightarrow> bool" where
  "isParam seg = (seg \<noteq> [] \<and> hd seg = CHR '':'')"

fun matchSegments :: "string list \<Rightarrow> string list \<Rightarrow> (string \<times> jsval) list option" where
  "matchSegments [] [] = Some []"
| "matchSegments (p # ps) (s # ss) =
     (if isParam p then
        (if s = [] then None
         else map_option (\<lambda>bs. (tl p, JStr s) # bs) (matchSegments ps ss))
      else if p = s then matchSegments ps ss
      else None)"
| "matchSegments _ _ = None"

fun moreLiteral :: "string list \<Rightarrow> string list \<Rightarrow> bool" where
  "moreLiteral (p # ps) (q # qs) =
     (if isParam p = isParam q then moreLiteral ps qs else isParam q)"
| "moreLiteral _ _ = False"

definition matching :: "'w router \<Rightarrow> string \<Rightarrow> string \<Rightarrow> ('w endpoint \<times> jsval) list" where
  "matching router m p =
     List.map_filter
       (\<lambda>(name, e).
          if http_method e = m
          then map_option (\<lambda>bs. (e, JObj bs)) (matchSegments (segments (path e)) (segments p))
          else None)
       router"

definition preferRoute :: "'w endpoint \<times> jsval \<Rightarrow> 'w endpoint \<times> jsval \<Rightarrow> 'w endpoint \<times> jsval" where
  "preferRoute best c =
     (if moreLiteral (segments (path (fst c))) (segments (path (fst best))) then c else best)"

definition findRoute :: "'w router \<Rightarrow> string \<Rightarrow> string \<Rightarrow> ('w endpoint \<times> jsval) option" where
  "findRoute router m p =
     (case matching router m p of
        [] \<Rightarrow> None
      | c # cs \<Rightarrow> Some (foldl preferRoute c cs))"

text \<open>
  Modelled from the spec: the states of one request. The route is matched; the body and
  the query are validated against the definitions of the operation, and the query is
  passed through its \<open>pipe\<close>; only then the handler runs, and with it the resolver, which
  the handler calls first. Every failure ends the request.
\<close>

datatype issue = InvalidBody | InvalidQuery

datatype outcome =
    NoMatch
  | ValidationFailed issue
  | Failed error
  | Handled reply

fun status :: "outcome \<Rightarrow> nat" where
  "status NoMatch = 404"
| "status (ValidationFailed _) = 400"
| "status (Failed _) = 500"
| "status (Handled _) = 200"

definition validate :: "'w endpoint \<Rightarrow> request \<Rightarrow> jsval \<Rightarrow> issue + ctx" where
  "validate e req ps =
     (if (case body_schema e of None \<Rightarrow> False | Some s \<Rightarrow> \<not> conforms s (req_body req))
      then Inl InvalidBody
      else (case query_schema e of
              None \<Rightarrow>
                Inr \<lparr> headers = Some (req_headers req), params = ps,
                      query = JObj (req_query req), body = req_body req \<rparr>
            | Some (s, f) \<Rightarrow>
                if conforms s (JObj (req_query req))
                then Inr \<lparr> headers = Some (req_headers req), params = ps,
                           query = f (JObj (req_query req)), body = req_body req \<rparr>
                else Inl InvalidQuery))"

definition router_handler :: "'w router \<Rightarrow> request \<Rightarrow> 'w io \<Rightarrow> outcome \<times> 'w io" where
  "router_handler router req st =
     (case findRoute router (req_method req) (req_path req) of
        None \<Rightarrow> (NoMatch, st)
      | Some (e, ps) \<Rightarrow>
          (case validate e req ps of
             Inl i \<Rightarrow> (ValidationFailed i, st)
           | Inr c \<Rightarrow>
               (case handler e c st of
                  (Inl err, st') \<Rightarrow> (Failed err, st')
                | (Inr r, st') \<Rightarrow> (Handled r, st'))))"

section \<open>The assembled service (\<open>src/shop-service.ts\<close>)\<close>

text \<open>
  \<open>betterShop\<close> makes the resolver, takes every endpoint of the store, product,
  collection and checkout builders, in this order, and hands them to \<open>createRouter\<close>
  with the documentation enabled at \<open>/api/reference\<close>. The utility builder is not among
  them.
  The repository also holds an earlier version of the service in one file; it defines
  the same nineteen operations, with the same definitions and handlers.
\<close>

definition betterShop_endpoints ::
  "(string \<Rightarrow> 'o \<Rightarrow> 'w ShopClient) \<Rightarrow> 'o \<Rightarrow> (string \<times> 'w endpoint) list" where
  "betterShop_endpoints new_ShopClient options =
     (let getShop = makeGetShop new_ShopClient options
      in buildStoreEndpoints getShop @ buildProductEndpoints getShop
         @ buildCollectionEndpoints getShop @ buildCheckoutEndpoints getShop)"

definition betterShop :: "(string \<Rightarrow> 'o \<Rightarrow> 'w ShopClient) \<Rightarrow> 'o \<Rightarrow> error + 'w router" where
  "betterShop new_ShopClient options =
     createRouter (betterShop_endpoints new_ShopClient options)
       \<lparr> openapi_disabled = False, openapi_path = ''/api/reference'' \<rparr>"

section \<open>The client of the test suite\<close>

text \<open>
  The tests of the repository replace \<open>shop-client\<close> by a mock whose capabilities
  resolve to fixed values and touch no state. It serves as the concrete client where a
  statement is evaluated.
\<close>

definition resolve :: "jsval \<Rightarrow> 'w async" where
  "resolve v w = (Inr v, w)"

definition MockShopClient :: "string \<Rightarrow> 'o \<Rightarrow> 'w ShopClient" where
  "MockShopClient domain options =
     \<lparr> shop_getInfo = (\<lambda>_. resolve (JObj [(''name'', JStr ''Mock Store''),
         (''domain'', JStr ''mock.myshopify.com''), (''country'', JStr ''US'')])),
       shop_clearInfoCache = (\<lambda>w. w),
       shop_determineStoreType = (\<lambda>_. resolve (JObj [(''vertical'', JStr ''clothing''),
         (''audience'', JStr ''adult_male'')])),
       shop_products_all = (\<lambda>_. resolve (JArr [JObj [(''id'', JStr ''1''),
         (''title'', JStr ''Product 1'')]])),
       shop_products_paginated = (\<lambda>opts. resolve (JArr [JObj [(''id'', JStr ''1''),
         (''title'', JStr ''Product 1''), (''page'', getProp opts ''page'')]])),
       shop_products_showcased = resolve (JArr [JObj [(''id'', JStr ''2''),
         (''title'', JStr ''Showcased Product'')]]),
       shop_products_filter = resolve (JObj [(''Size'', JArr [JStr ''S'', JStr ''M''])]),
       shop_products_find = (\<lambda>h _. if h = JStr ''exists''
         then resolve (JObj [(''id'', JStr ''3''), (''title'', JStr ''Product 3'')])
         else resolve JNull),
       shop_products_enriched = (\<lambda>_ _. resolve (JObj [(''id'', JStr ''3''),
         (''title'', JStr ''Product 3''), (''enriched_content'', JStr ''Enriched'')])),
       shop_products_classify = (\<lambda>_ _. resolve (JObj [(''vertical'', JStr ''clothing'')])),
       shop_products_generateSEOContent =
         (\<lambda>_ _. resolve (JObj [(''metaTitle'', JStr ''SEO Title'')])),
       shop_collections_all = resolve (JArr [JObj [(''id'', JStr ''c1''),
         (''title'', JStr ''Collection 1'')]]),
       shop_collections_paginated = (\<lambda>_. resolve (JArr [JObj [(''id'', JStr ''c1''),
         (''title'', JStr ''Collection 1'')]])),
       shop_collections_showcased = resolve (JArr [JObj [(''id'', JStr ''c2''),
         (''title'', JStr ''Showcased Collection'')]]),
       shop_collections_find = (\<lambda>h. if h = JStr ''exists''
         then resolve (JObj [(''id'', JStr ''c3''), (''title'', JStr ''Collection 3'')])
         else resolve JNull),
       shop_collections_products_all = (\<lambda>_ _. resolve (JArr [JObj [(''id'', JStr ''p1''),
         (''title'', JStr ''Col Product 1'')]])),
       shop_collections_products_paginated = (\<lambda>_ _. resolve (JArr [JObj [(''id'', JStr ''p1''),
         (''title'', JStr ''Col Product 1'')]])),
       shop_collections_products_slugs = (\<lambda>_. resolve (JArr [JStr ''p1-slug''])),
       shop_checkout_createUrl = (\<lambda>_. JStr ''https://checkout.url'') \<rparr>"

text \<open>The router of the tests: \<open>betterShop()\<close> over the mock, without options.\<close>

definition mockRouter :: "unit router" where
  "mockRouter = (case betterShop MockShopClient () of Inl _ \<Rightarrow> [] | Inr r \<Rightarrow> r)"

definition mockHeaders :: Headers where
  "mockHeaders = [(''x-shop-domain'', ''mock.myshopify.com'')]"

section \<open>Facts about the assembled router\<close>

lemmas store_defs = getInfo_def clearInfoCache_def determineStoreType_def

lemmas product_defs = getAllProducts_def getPaginatedProducts_def getShowcasedProducts_def
  getProductFilters_def getProduct_def getEnrichedProduct_def classifyProduct_def
  generateProductSEO_def

lemmas collection_defs = getAllCollections_def getPaginatedCollections_def
  getShowcasedCollections_def getCollection_def getCollectionProductsAll_def
  getCollectionProductsPaginated_def getCollectionProductSlugs_def

lemmas endpoint_defs = store_defs product_defs collection_defs createCheckoutUrl_def

lemmas builder_defs = buildStoreEndpoints_def buildProductEndpoints_def
  buildCollectionEndpoints_def buildCheckoutEndpoints_def

lemmas route_defs = findRoute_def matching_def segments_def isParam_def preferRoute_def
  betterShop_endpoints_def builder_defs Let_def openapi_def

lemmas number_defs = Number_str_def trim_def isWhiteSpace_def nonDecimal_def unsignedDecimal_def
  isDigit_def exponentPart_def decimalDigits_def scale10_def digitsValue_def digitValue_def

lemmas handler_defs = throw_def await_def returnJson_def makeGetShop_def headers_get_def
  numberOrUndefined_def

lemmas mock_defs = MockShopClient_def resolve_def mockHeaders_def

text \<open>The methods and paths that \<open>betterShop\<close> registers, in order.\<close>

lemma betterShop_keys:
  "map (\<lambda>(name, e). (http_method e, path e)) (betterShop_endpoints new_ShopClient options) =
     [(''GET'', ''/info''), (''POST'', ''/info/clear-cache''), (''POST'', ''/store-type''),
      (''GET'', ''/products/all''), (''GET'', ''/products/paginated''),
      (''GET'', ''/products/showcased''), (''GET'', ''/products/filters''),
      (''GET'', ''/products/:handle''), (''POST'', ''/products/:handle/enriched''),
      (''POST'', ''/products/:handle/classify''), (''POST'', ''/products/:handle/seo''),
      (''GET'', ''/collections/all''), (''GET'', ''/collections/paginated''),
      (''GET'', ''/collections/showcased''), (''GET'', ''/collections/:handle''),
      (''GET'', ''/collections/:handle/products/all''),
      (''GET'', ''/collections/:handle/products/paginated''),
      (''GET'', ''/collections/:handle/slugs''), (''POST'', ''/checkout/url'')]"
  by (simp add: betterShop_endpoints_def builder_defs endpoint_defs Let_def)

text \<open>No two of them coincide, so the construction of the router succeeds.\<close>

lemma betterShop_Inr:
  "betterShop new_ShopClient options =
     Inr (betterShop_endpoints new_ShopClient options
          @ [(''openapi'', openapi ''/api/reference'')])"
  by (simp add: betterShop_def createRouter_def betterShop_keys openapi_def)

lemma mockRouter_eq:
  "mockRouter =
     betterShop_endpoints MockShopClient () @ [(''openapi'', openapi ''/api/reference'')]"
  by (simp add: mockRouter_def betterShop_Inr)

lemma betterShop_mock: "betterShop MockShopClient () = Inr mockRouter"
  by (simp add: mockRouter_def betterShop_Inr)

lemma makeGetShop_missing:
  "map_of h ''x-shop-domain'' = None \<Longrightarrow>
   makeGetShop new_ShopClient options (Some h) = Inl (Error ''x-shop-domain header is required'')"
  by (simp add: makeGetShop_def headers_get_def)

lemma makeGetShop_present:
  "map_of h ''x-shop-domain'' = Some d \<Longrightarrow> d \<noteq> [] \<Longrightarrow>
   makeGetShop new_ShopClient options (Some h) = Inr (new_ShopClient d options)"
  by (simp add: makeGetShop_def headers_get_def)

lemma validate_headers: "validate e req ps = Inr c \<Longrightarrow> headers c = Some (req_headers req)"
  by (auto simp: validate_def split: if_splits option.splits)

text \<open>Every handler of the four builders starts with the resolver and stops when it fails.\<close>

lemma handler_without_tenant:
  assumes "(n, e) \<in> set (betterShop_endpoints new_ShopClient options)"
    and "headers c = Some h" and "map_of h ''x-shop-domain'' = None"
  shows "handler e c st = (Inl (Error ''x-shop-domain header is required''), st)"
  using assms
  by (auto simp: betterShop_endpoints_def builder_defs endpoint_defs Let_def throw_def
      makeGetShop_missing)

lemma mock_route_info:
  "findRoute mockRouter ''GET'' ''/info'' = Some (getInfo (makeGetShop MockShopClient ()), JObj [])"
  by (simp add: mockRouter_eq route_defs endpoint_defs)

lemma mock_route_checkout:
  "findRoute mockRouter ''POST'' ''/checkout/url'' =
     Some (createCheckoutUrl (makeGetShop MockShopClient ()), JObj [])"
  by (simp add: mockRouter_eq route_defs endpoint_defs)

lemma foldl_preferRoute_mem: "foldl preferRoute c cs \<in> set (c # cs)"
  by (induction cs arbitrary: c) (auto simp: preferRoute_def)

lemma matching_mem:
  assumes "(e, ps) \<in> set (matching router m p)"
  shows "\<exists>name. (name, e) \<in> set router"
  using assms by (auto simp: matching_def List.map_filter_def split: if_splits)

lemma findRoute_mem:
  assumes "findRoute router m p = Some (e, ps)"
  shows "\<exists>name. (name, e) \<in> set router"
proof (cases "matching router m p")
  case Nil
  then show ?thesis using assms by (simp add: findRoute_def)
next
  case (Cons c cs)
  then have "(e, ps) = foldl preferRoute c cs"
    using assms by (simp add: findRoute_def)
  then have "(e, ps) \<in> set (matching router m p)"
    using foldl_preferRoute_mem[of c cs] Cons by simp
  then show ?thesis by (rule matching_mem)
qed

lemma route_checkout:
  assumes "betterShop new_ShopClient options = Inr router"
  shows "findRoute router ''POST'' ''/checkout/url'' =
     Some (createCheckoutUrl (makeGetShop new_ShopClient options), JObj [])"
proof -
  have "router = betterShop_endpoints new_ShopClient options
                 @ [(''openapi'', openapi ''/api/reference'')]"
    using assms by (simp add: betterShop_Inr)
  then show ?thesis
    by (simp add: route_defs endpoint_defs)
qed

lemma route_clear_cache:
  assumes "betterShop new_ShopClient options = Inr router"
  shows "findRoute router ''POST'' ''/info/clear-cache'' =
     Some (clearInfoCache (makeGetShop new_ShopClient options), JObj [])"
proof -
  have "router = betterShop_endpoints new_ShopClient options
                 @ [(''openapi'', openapi ''/api/reference'')]"
    using assms by (simp add: betterShop_Inr)
  then show ?thesis
    by (simp add: route_defs endpoint_defs)
qed


lemma validate_params: "validate e req ps = Inr c \<Longrightarrow> params c = ps"
  by (auto simp: validate_def split: if_splits option.splits)

lemma validate_query:
  assumes "validate e req ps = Inr c"
  shows "query c = (case query_schema e of None \<Rightarrow> JObj (req_query req)
                    | Some (s, f) \<Rightarrow> f (JObj (req_query req)))"
  using assms by (auto simp: validate_def split: if_splits option.splits)

text \<open>
  A capability call is logged whether the promise resolves or rejects, and a request that
  reaches its handler no longer ends in a validation failure.
\<close>

lemma log_of_await:
  "snd (snd (returnJson (await name args f (w, cs)))) = cs @ [Call name args]"
  by (cases "f w"; cases "fst (f w)") (auto simp: await_def returnJson_def)

lemma handled_log:
  assumes "findRoute router (req_method req) (req_path req) = Some (e, ps)"
    and "validate e req ps = Inr c"
  shows "snd (router_handler router req st) = snd (handler e c st)"
  using assms by (cases "handler e c st"; cases "fst (handler e c st)")
    (auto simp: router_handler_def)

lemma handled_status:
  assumes "findRoute router (req_method req) (req_path req) = Some (e, ps)"
    and "validate e req ps = Inr c"
  shows "status (fst (router_handler router req st)) \<noteq> 400"
  using assms by (cases "handler e c st"; cases "fst (handler e c st)")
    (auto simp: router_handler_def)

lemma unhandled_state:
  assumes "findRoute router (req_method req) (req_path req) = Some (e, ps)"
    and "\<And>c. validate e req ps = Inr c \<Longrightarrow> snd (handler e c st) = st"
  shows "snd (router_handler router req st) = st"
proof (cases "validate e req ps")
  case (Inl i)
  then show ?thesis using assms(1) by (simp add: router_handler_def)
next
  case (Inr c)
  then have "snd (router_handler router req st) = snd (handler e c st)"
    using assms(1) by (rule handled_log[rotated])
  then show ?thesis using assms(2)[OF Inr] by simp
qed

lemma mock_route_paginated_collections:
  "findRoute mockRouter ''GET'' ''/collections/paginated'' =
     Some (getPaginatedCollections (makeGetShop MockShopClient ()), JObj [])"
  by (simp add: mockRouter_eq route_defs endpoint_defs)

lemma mock_route_paginated_products:
  "findRoute mockRouter ''GET'' ''/products/paginated'' =
     Some (getPaginatedProducts (makeGetShop MockShopClient ()), JObj [])"
  by (simp add: mockRouter_eq route_defs endpoint_defs)

subsection \<open>\<open>Number\<close> on strings of decimal digits\<close>






lemma Number_str_abc: "Number_str ''abc'' = NaN"
  by (simp add: number_defs)

section \<open>Tenant identification\<close>

text \<open>
  Claim C1, as amended. For a request without the \<open>x-shop-domain\<close> header, the state
  of the world and the log of capability calls are unchanged, so no capability of the
  storefront client is invoked; and when the request is matched to an operation of the
  endpoint builders and passes the validation of that operation, it ends with the
  identification failure, status 500. (As the claim is written, with status 500 for
  every request without the header, it does not hold: see the counterexample below.)
\<close>

theorem missing_tenant_header_fails:
  assumes "betterShop new_ShopClient options = Inr router"
    and "map_of (req_headers req) ''x-shop-domain'' = None"
  shows "snd (router_handler router req st) = st
       \<and> (\<forall>e ps name c.
            findRoute router (req_method req) (req_path req) = Some (e, ps)
            \<and> (name, e) \<in> set (betterShop_endpoints new_ShopClient options)
            \<and> validate e req ps = Inr c
            \<longrightarrow> router_handler router req st
                  = (Failed (Error ''x-shop-domain header is required''), st)
                \<and> status (fst (router_handler router req st)) = 500)"
proof (intro conjI allI impI)
  have r: "router = betterShop_endpoints new_ShopClient options
                    @ [(''openapi'', openapi ''/api/reference'')]"
    using assms(1) by (simp add: betterShop_Inr)
  show "snd (router_handler router req st) = st"
  proof (cases "findRoute router (req_method req) (req_path req)")
    case None
    then show ?thesis by (simp add: router_handler_def)
  next
    case (Some ep)
    obtain e ps where ep: "ep = (e, ps)"
      by (cases ep)
    then obtain name where mem: "(name, e) \<in> set router"
      using Some findRoute_mem by blast
    have "snd (handler e c st) = st" if "validate e req ps = Inr c" for c
    proof (cases "(name, e) \<in> set (betterShop_endpoints new_ShopClient options)")
      case True
      have "headers c = Some (req_headers req)"
        using that by (rule validate_headers)
      with True have "handler e c st = (Inl (Error ''x-shop-domain header is required''), st)"
        using assms(2) by (rule handler_without_tenant)
      then show ?thesis
        by simp
    next
      case False
      then have "e = openapi ''/api/reference''"
        using mem r by simp
      then show ?thesis
        by (simp add: openapi_def)
    qed
    then show ?thesis
      using Some ep by (simp add: unhandled_state)
  qed
next
  fix e ps name c
  assume a: "findRoute router (req_method req) (req_path req) = Some (e, ps)
            \<and> (name, e) \<in> set (betterShop_endpoints new_ShopClient options)
            \<and> validate e req ps = Inr c"
  then have v: "validate e req ps = Inr c"
    and m: "(name, e) \<in> set (betterShop_endpoints new_ShopClient options)"
    by simp_all
  have "headers c = Some (req_headers req)"
    using v by (rule validate_headers)
  with m have "handler e c st = (Inl (Error ''x-shop-domain header is required''), st)"
    using assms(2) by (rule handler_without_tenant)
  then show "router_handler router req st
        = (Failed (Error ''x-shop-domain header is required''), st)"
    and "status (fst (router_handler router req st)) = 500"
    using a by (simp_all add: router_handler_def)
qed

text \<open>The test of the repository: \<open>GET /info\<close> without headers.\<close>

theorem missing_tenant_header_fails_witness:
  "snd (router_handler mockRouter
     \<lparr> req_method = ''GET'', req_path = ''/info'', req_headers = [], req_query = [],
       req_body = JUndefined \<rparr> ((), [])) = ((), [])
   \<and> router_handler mockRouter
     \<lparr> req_method = ''GET'', req_path = ''/info'', req_headers = [], req_query = [],
       req_body = JUndefined \<rparr> ((), [])
     = (Failed (Error ''x-shop-domain header is required''), ((), []))
   \<and> status (fst (router_handler mockRouter
     \<lparr> req_method = ''GET'', req_path = ''/info'', req_headers = [], req_query = [],
       req_body = JUndefined \<rparr> ((), []))) = 500"
proof -
  let ?req = "\<lparr> req_method = ''GET'', req_path = ''/info'', req_headers = [], req_query = [],
       req_body = JUndefined \<rparr>"
  let ?e = "getInfo (makeGetShop MockShopClient ()) :: unit endpoint"
  let ?c = "\<lparr> headers = Some [], params = JObj [], query = JObj [(''force'', JBool False)],
            body = JUndefined \<rparr>"
  have h1: "betterShop MockShopClient () = Inr mockRouter"
    by (rule betterShop_mock)
  have h2: "map_of (req_headers ?req) ''x-shop-domain'' = None"
    by simp
  have r: "findRoute mockRouter (req_method ?req) (req_path ?req) = Some (?e, JObj [])"
    by (simp add: mock_route_info)
  have m: "(''getInfo'', ?e) \<in> set (betterShop_endpoints MockShopClient ())"
    by (simp add: betterShop_endpoints_def builder_defs Let_def)
  have v: "validate ?e ?req (JObj []) = Inr ?c"
    by (simp add: validate_def getInfo_def)
  note fact = missing_tenant_header_fails [OF h1 h2, of "((), [])"]
  have "router_handler mockRouter ?req ((), [])
          = (Failed (Error ''x-shop-domain header is required''), ((), []))
        \<and> status (fst (router_handler mockRouter ?req ((), []))) = 500"
    using fact r m v by blast
  then show ?thesis
    by simp
qed

text \<open>
  A checkout request without the header whose body does not validate is answered with the
  validation failure, status 400, not with 500.
\<close>

theorem missing_tenant_header_counterexample:
  "map_of (req_headers
     \<lparr> req_method = ''POST'', req_path = ''/checkout/url'', req_headers = [], req_query = [],
       req_body = JObj [(''email'', JStr ''invalid-email''), (''items'', JArr [])] \<rparr>)
     ''x-shop-domain'' = None
   \<and> status (fst (router_handler mockRouter
     \<lparr> req_method = ''POST'', req_path = ''/checkout/url'', req_headers = [], req_query = [],
       req_body = JObj [(''email'', JStr ''invalid-email''), (''items'', JArr [])] \<rparr>
     ((), []))) = 400"
  by (simp add: router_handler_def mockRouter_eq route_defs endpoint_defs validate_def
      checkoutBody_def string_email_def isAlpha_def isDigit_def)

section \<open>Order of validation and tenant resolution\<close>

text \<open>
  Claim C7. A request that fails the validation of its operation and has no
  \<open>x-shop-domain\<close> header is answered with the validation failure, status 400: the
  handler, and with it the resolver, does not run, and the state is unchanged.
\<close>

theorem validation_before_tenant_resolution:
  assumes "betterShop new_ShopClient options = Inr router"
    and "findRoute router (req_method req) (req_path req) = Some (e, ps)"
    and "validate e req ps = Inl i"
    and "map_of (req_headers req) ''x-shop-domain'' = None"
  shows "router_handler router req st = (ValidationFailed i, st)
         \<and> status (fst (router_handler router req st)) = 400"
  using assms(2,3) by (simp add: router_handler_def)

theorem validation_before_tenant_resolution_witness:
  "router_handler mockRouter
     \<lparr> req_method = ''POST'', req_path = ''/checkout/url'', req_headers = [], req_query = [],
       req_body = JObj [(''email'', JStr ''invalid-email''), (''items'', JArr [])] \<rparr> ((), [])
   = (ValidationFailed InvalidBody, ((), []))
   \<and> status (fst (router_handler mockRouter
     \<lparr> req_method = ''POST'', req_path = ''/checkout/url'', req_headers = [], req_query = [],
       req_body = JObj [(''email'', JStr ''invalid-email''), (''items'', JArr [])] \<rparr>
     ((), []))) = 400"
proof -
  let ?req = "\<lparr> req_method = ''POST'', req_path = ''/checkout/url'', req_headers = [],
       req_query = [],
       req_body = JObj [(''email'', JStr ''invalid-email''), (''items'', JArr [])] \<rparr>"
  let ?e = "createCheckoutUrl (makeGetShop MockShopClient ()) :: unit endpoint"
  have h1: "betterShop MockShopClient () = Inr mockRouter"
    by (rule betterShop_mock)
  have h2: "findRoute mockRouter (req_method ?req) (req_path ?req) = Some (?e, JObj [])"
    by (simp add: mock_route_checkout)
  have h3: "validate ?e ?req (JObj []) = Inl InvalidBody"
    by (simp add: validate_def createCheckoutUrl_def checkoutBody_def string_email_def
        isAlpha_def isDigit_def)
  have h4: "map_of (req_headers ?req) ''x-shop-domain'' = None"
    by simp
  show ?thesis
    using validation_before_tenant_resolution [OF h1 h2 h3 h4, of "((), [])"] by simp
qed

section \<open>Construction of the registry\<close>



section \<open>The route table\<close>

text \<open>
  Claim C2 (the code departs from it). The claim wants the three utility routes in the
  assembled router. \<open>betterShop\<close> registers the nineteen operations listed in
  \<open>betterShop_keys\<close> and the documentation route, and nothing of
  \<open>buildUtilsEndpoints\<close>: the requests of the repository's own utility tests, with the
  tenant header present, match no route and get the no-match response.
\<close>

theorem utility_routes_unmatched:
  "fst (router_handler mockRouter
     \<lparr> req_method = ''GET'', req_path = ''/utils/store-slug'', req_headers = mockHeaders,
       req_query = [(''domain'', JStr ''Shop.Example.com'')], req_body = JUndefined \<rparr>
     ((), [])) = NoMatch
   \<and> fst (router_handler mockRouter
     \<lparr> req_method = ''GET'', req_path = ''/utils/product-slug'', req_headers = mockHeaders,
       req_query = [(''handle'', JStr ''cool-shirt''), (''domain'', JStr ''shop.example.com'')],
       req_body = JUndefined \<rparr>
     ((), [])) = NoMatch
   \<and> fst (router_handler mockRouter
     \<lparr> req_method = ''GET'', req_path = ''/utils/detect-country'', req_headers = mockHeaders,
       req_query = [], req_body = JUndefined \<rparr>
     ((), [])) = NoMatch
   \<and> status NoMatch = 404"
  by (simp add: router_handler_def mockRouter_eq route_defs endpoint_defs)

text \<open>Had the utility builder been handed to the router, the routes would be matched.\<close>

lemma utility_route_when_registered:
  "findRoute
     (betterShop_endpoints new_ShopClient options
      @ buildUtilsEndpoints u (makeGetShop new_ShopClient options)
      @ [(''openapi'', openapi ''/api/reference'')])
     ''GET'' ''/utils/store-slug''
   = Some (getStoreSlug u, JObj [])"
  by (simp add: route_defs endpoint_defs buildUtilsEndpoints_def detectCountry_def
      getStoreSlug_def getProductSlug_def)

section \<open>Validation of the checkout payload\<close>

text \<open>
  Claim C3, as amended. A \<open>POST /checkout/url\<close> request whose body does not conform to
  the definition of the body (a required field missing or of the wrong type, an email
  that is not in email format, an item without its two strings) is answered with the
  validation failure, status 400, and the state and the log are unchanged: the checkout
  capability is not invoked. An empty \<open>items\<close> array is not among the failures (see the
  counterexample below).
\<close>

theorem checkout_invalid_body_rejected:
  assumes "betterShop new_ShopClient options = Inr router"
    and "req_method req = ''POST''" and "req_path req = ''/checkout/url''"
    and "\<not> conforms checkoutBody (req_body req)"
  shows "router_handler router req st = (ValidationFailed InvalidBody, st)
         \<and> status (fst (router_handler router req st)) = 400"
  using assms(2,3,4) route_checkout[OF assms(1)]
  by (simp add: router_handler_def validate_def createCheckoutUrl_def)

text \<open>The payload of the repository's test: a malformed email and no address.\<close>

theorem checkout_invalid_body_rejected_witness:
  "router_handler mockRouter
     \<lparr> req_method = ''POST'', req_path = ''/checkout/url'', req_headers = mockHeaders,
       req_query = [],
       req_body = JObj [(''email'', JStr ''invalid-email''), (''items'', JArr [])] \<rparr> ((), [])
   = (ValidationFailed InvalidBody, ((), []))
   \<and> status (fst (router_handler mockRouter
     \<lparr> req_method = ''POST'', req_path = ''/checkout/url'', req_headers = mockHeaders,
       req_query = [],
       req_body = JObj [(''email'', JStr ''invalid-email''), (''items'', JArr [])] \<rparr>
     ((), []))) = 400"
proof -
  let ?req = "\<lparr> req_method = ''POST'', req_path = ''/checkout/url'', req_headers = mockHeaders,
       req_query = [],
       req_body = JObj [(''email'', JStr ''invalid-email''), (''items'', JArr [])] \<rparr>"
  have h1: "betterShop MockShopClient () = Inr mockRouter"
    by (rule betterShop_mock)
  have h2: "req_method ?req = ''POST''" and h3: "req_path ?req = ''/checkout/url''"
    by simp_all
  have h4: "\<not> conforms checkoutBody (req_body ?req)"
    by (simp add: checkoutBody_def string_email_def isAlpha_def isDigit_def)
  show ?thesis
    using checkout_invalid_body_rejected [OF h1 h2 h3 h4, of "((), [])"] by simp
qed

text \<open>Two ways of failing the definition: an email out of format, a required field missing.\<close>

lemma checkout_email_format:
  assumes "getProp b ''email'' = JStr s" and "\<not> string_email s"
  shows "\<not> conforms checkoutBody b"
  using assms by (cases b) (auto simp: checkoutBody_def split: option.splits)

lemma checkout_required_field:
  assumes "k \<in> {''email'', ''items'', ''address''}" and "getProp b k = JUndefined"
  shows "\<not> conforms checkoutBody b"
  using assms by (cases b) (auto simp: checkoutBody_def split: option.splits jsval.splits)

text \<open>
  A well-formed payload whose \<open>items\<close> array is empty passes the validation: the
  definition \<open>type({...}).array()\<close> sets no least length. The checkout capability is
  invoked and the answer is 200.
\<close>

theorem checkout_empty_items_counterexample:
  "router_handler mockRouter
     \<lparr> req_method = ''POST'', req_path = ''/checkout/url'', req_headers = mockHeaders,
       req_query = [],
       req_body = JObj
         [(''email'', JStr ''test@example.com''),
          (''items'', JArr []),
          (''address'', JObj
             [(''firstName'', JStr ''John''), (''lastName'', JStr ''Doe''),
              (''address1'', JStr ''123 St''), (''city'', JStr ''City''),
              (''zip'', JStr ''12345''), (''country'', JStr ''US''),
              (''province'', JStr ''CA''), (''phone'', JStr ''1234567890'')])] \<rparr>
     ((), [])
   = (Handled (Json (JObj [(''url'', JStr ''https://checkout.url'')])),
      ((), [Call ''checkout.createUrl'' [JObj
         [(''email'', JStr ''test@example.com''),
          (''items'', JArr []),
          (''address'', JObj
             [(''firstName'', JStr ''John''), (''lastName'', JStr ''Doe''),
              (''address1'', JStr ''123 St''), (''city'', JStr ''City''),
              (''zip'', JStr ''12345''), (''country'', JStr ''US''),
              (''province'', JStr ''CA''), (''phone'', JStr ''1234567890'')])]]]))
   \<and> status (Handled (Json (JObj [(''url'', JStr ''https://checkout.url'')]))) = 200"
  by (simp add: router_handler_def mockRouter_eq route_defs endpoint_defs validate_def
      checkoutBody_def string_email_def isAlpha_def isDigit_def handler_defs mock_defs)

section \<open>Find by handle\<close>

text \<open>
  The requests that reach the two find-by-handle operations: \<open>GET /products/h\<close> and
  \<open>GET /collections/h\<close> for a handle \<open>h\<close> that is one segment and is not a literal
  segment of a sibling route, which takes precedence.
\<close>

lemma splitOn_absent: "c \<notin> set s \<Longrightarrow> splitOn c s = [s]"
  by (induction s) auto

lemma segments_products_handle:
  assumes "CHR ''/'' \<notin> set h"
  shows "segments (''/products/'' @ h) = [''products'', h]"
  using assms by (simp add: segments_def splitOn_absent)

lemma segments_collections_handle:
  assumes "CHR ''/'' \<notin> set h"
  shows "segments (''/collections/'' @ h) = [''collections'', h]"
  using assms by (simp add: segments_def splitOn_absent)

lemma route_product_handle:
  assumes "betterShop new_ShopClient options = Inr router"
    and "h \<noteq> []" and "CHR ''/'' \<notin> set h"
    and "h \<notin> {''all'', ''paginated'', ''showcased'', ''filters''}"
  shows "findRoute router ''GET'' (''/products/'' @ h) =
     Some (getProduct (makeGetShop new_ShopClient options), JObj [(''handle'', JStr h)])"
proof -
  have r: "router = betterShop_endpoints new_ShopClient options
                 @ [(''openapi'', openapi ''/api/reference'')]"
    using assms(1) by (simp add: betterShop_Inr)
  have ne: "''all'' \<noteq> h" "''paginated'' \<noteq> h" "''showcased'' \<noteq> h" "''filters'' \<noteq> h"
    "''reference'' \<noteq> h \<or> True"
    using assms(4) by auto
  have seg: "segments (''/products/'' @ h) = [''products'', h]"
    using assms(3) by (rule segments_products_handle)
  show ?thesis
    unfolding r findRoute_def matching_def seg
    using assms(2) ne
    by (simp add: betterShop_endpoints_def builder_defs endpoint_defs Let_def openapi_def
        segments_def isParam_def preferRoute_def)
qed

lemma route_collection_handle:
  assumes "betterShop new_ShopClient options = Inr router"
    and "h \<noteq> []" and "CHR ''/'' \<notin> set h"
    and "h \<notin> {''all'', ''paginated'', ''showcased''}"
  shows "findRoute router ''GET'' (''/collections/'' @ h) =
     Some (getCollection (makeGetShop new_ShopClient options), JObj [(''handle'', JStr h)])"
proof -
  have r: "router = betterShop_endpoints new_ShopClient options
                 @ [(''openapi'', openapi ''/api/reference'')]"
    using assms(1) by (simp add: betterShop_Inr)
  have ne: "''all'' \<noteq> h" "''paginated'' \<noteq> h" "''showcased'' \<noteq> h"
    using assms(4) by auto
  have seg: "segments (''/collections/'' @ h) = [''collections'', h]"
    using assms(3) by (rule segments_collections_handle)
  show ?thesis
    unfolding r findRoute_def matching_def seg
    using assms(2) ne
    by (simp add: betterShop_endpoints_def builder_defs endpoint_defs Let_def openapi_def
        segments_def isParam_def preferRoute_def)
qed

text \<open>
  Whatever request is routed to them, the two handlers throw when \<open>find\<close> resolves to a
  falsy value.
\<close>

lemma absent_find_throws:
  assumes "betterShop new_ShopClient options = Inr router"
    and "findRoute router (req_method req) (req_path req) = Some (e, ps)"
    and "validate e req ps = Inr c"
    and "map_of (req_headers req) ''x-shop-domain'' = Some d" and "d \<noteq> []"
    and "\<not> truthy v"
  shows "(e = getProduct (makeGetShop new_ShopClient options)
          \<and> shop_products_find (new_ShopClient d options) (getProp ps ''handle'')
               (JObj [(''currency'', getProp (query c) ''currency'')]) w = (Inr v, w')
          \<longrightarrow> router_handler router req (w, cs)
                = (Failed (Error ''Product not found''),
                   (w', cs @ [Call ''products.find''
                      [getProp ps ''handle'',
                       JObj [(''currency'', getProp (query c) ''currency'')]]]))
              \<and> status (fst (router_handler router req (w, cs))) = 500)
       \<and> (e = getCollection (makeGetShop new_ShopClient options)
          \<and> shop_collections_find (new_ShopClient d options) (getProp ps ''handle'') w
              = (Inr v, w')
          \<longrightarrow> router_handler router req (w, cs)
                = (Failed (Error ''Collection not found''),
                   (w', cs @ [Call ''collections.find'' [getProp ps ''handle'']]))
              \<and> status (fst (router_handler router req (w, cs))) = 500)"
proof -
  have hs: "headers c = Some (req_headers req)" and ps: "params c = ps"
    using assms(3) by (simp_all add: validate_headers validate_params)
  have gs: "makeGetShop new_ShopClient options (Some (req_headers req))
            = Inr (new_ShopClient d options)"
    using assms(4,5) by (rule makeGetShop_present)
  have run: "router_handler router req st = (case handler e c st of
      (Inl err, st') \<Rightarrow> (Failed err, st') | (Inr r, st') \<Rightarrow> (Handled r, st'))" for st
    using assms(2,3) by (simp add: router_handler_def)
  show ?thesis
  proof (intro conjI impI)
    assume a: "e = getProduct (makeGetShop new_ShopClient options)
          \<and> shop_products_find (new_ShopClient d options) (getProp ps ''handle'')
               (JObj [(''currency'', getProp (query c) ''currency'')]) w = (Inr v, w')"
    have "handler e c (w, cs) = (Inl (Error ''Product not found''),
        (w', cs @ [Call ''products.find''
           [getProp ps ''handle'', JObj [(''currency'', getProp (query c) ''currency'')]]]))"
      using a assms(6) by (simp add: getProduct_def hs ps gs await_def throw_def)
    then show "router_handler router req (w, cs)
        = (Failed (Error ''Product not found''),
           (w', cs @ [Call ''products.find''
              [getProp ps ''handle'', JObj [(''currency'', getProp (query c) ''currency'')]]]))"
      and "status (fst (router_handler router req (w, cs))) = 500"
      by (simp_all add: run)
  next
    assume a: "e = getCollection (makeGetShop new_ShopClient options)
          \<and> shop_collections_find (new_ShopClient d options) (getProp ps ''handle'') w
              = (Inr v, w')"
    have "handler e c (w, cs) = (Inl (Error ''Collection not found''),
        (w', cs @ [Call ''collections.find'' [getProp ps ''handle'']]))"
      using a assms(6) by (simp add: getCollection_def hs ps gs await_def throw_def)
    then show "router_handler router req (w, cs)
        = (Failed (Error ''Collection not found''),
           (w', cs @ [Call ''collections.find'' [getProp ps ''handle'']]))"
      and "status (fst (router_handler router req (w, cs))) = 500"
      by (simp_all add: run)
  qed
qed

text \<open>The tests' handle \<open>missing\<close>, for which the mock resolves to \<open>null\<close>.\<close>

text \<open>
  Claim C4. In \<open>GET /products/:handle\<close> and \<open>GET /collections/:handle\<close>, when the find
  capability of the storefront client resolves to an absent value for the handle (\<open>null\<close>
  or \<open>undefined\<close>, or any falsy value), the handler throws "Product not found" or
  "Collection not found", and the response has the error status 500, not 200 with the
  absent value as its body.
\<close>

theorem find_by_handle_absent_fails:
  assumes "betterShop new_ShopClient options = Inr router"
    and "req_method req = ''GET''"
    and "map_of (req_headers req) ''x-shop-domain'' = Some d" and "d \<noteq> []"
    and "h \<noteq> []" and "CHR ''/'' \<notin> set h"
    and "\<not> truthy v"
  shows "(req_path req = ''/products/'' @ h
          \<and> h \<notin> {''all'', ''paginated'', ''showcased'', ''filters''}
          \<and> (map_of (req_query req) ''currency'' = None
               \<or> (\<exists>cur. map_of (req_query req) ''currency'' = Some (JStr cur)))
          \<and> shop_products_find (new_ShopClient d options) (JStr h)
               (JObj [(''currency'', getProp (JObj (req_query req)) ''currency'')]) w
              = (Inr v, w')
          \<longrightarrow> router_handler router req (w, cs)
                = (Failed (Error ''Product not found''),
                   (w', cs @ [Call ''products.find''
                      [JStr h,
                       JObj [(''currency'', getProp (JObj (req_query req)) ''currency'')]]]))
              \<and> status (fst (router_handler router req (w, cs))) = 500)
       \<and> (req_path req = ''/collections/'' @ h
          \<and> h \<notin> {''all'', ''paginated'', ''showcased''}
          \<and> shop_collections_find (new_ShopClient d options) (JStr h) w = (Inr v, w')
          \<longrightarrow> router_handler router req (w, cs)
                = (Failed (Error ''Collection not found''),
                   (w', cs @ [Call ''collections.find'' [JStr h]]))
              \<and> status (fst (router_handler router req (w, cs))) = 500)"
proof (intro conjI impI)
  let ?gs = "makeGetShop new_ShopClient options"
  let ?ps = "JObj [(''handle'', JStr h)]"
  let ?q = "JObj (req_query req)"
  assume a: "req_path req = ''/products/'' @ h
          \<and> h \<notin> {''all'', ''paginated'', ''showcased'', ''filters''}
          \<and> (map_of (req_query req) ''currency'' = None
               \<or> (\<exists>cur. map_of (req_query req) ''currency'' = Some (JStr cur)))
          \<and> shop_products_find (new_ShopClient d options) (JStr h)
               (JObj [(''currency'', getProp ?q ''currency'')]) w = (Inr v, w')"
  let ?c = "\<lparr> headers = Some (req_headers req), params = ?ps, query = ?q,
             body = req_body req \<rparr>"
  have r: "findRoute router (req_method req) (req_path req) = Some (getProduct ?gs, ?ps)"
    using a assms(2) route_product_handle[OF assms(1,5,6)] by simp
  have v: "validate (getProduct ?gs) req ?ps = Inr ?c"
    using a by (auto simp: validate_def getProduct_def)
  have f: "shop_products_find (new_ShopClient d options) (getProp ?ps ''handle'')
             (JObj [(''currency'', getProp (query ?c) ''currency'')]) w = (Inr v, w')"
    using a by simp
  note g = absent_find_throws [OF assms(1) r v assms(3,4,7), of w w' cs]
  from g f show "router_handler router req (w, cs)
      = (Failed (Error ''Product not found''),
         (w', cs @ [Call ''products.find''
            [JStr h, JObj [(''currency'', getProp ?q ''currency'')]]]))"
    and "status (fst (router_handler router req (w, cs))) = 500"
    by simp_all
next
  let ?gs = "makeGetShop new_ShopClient options"
  let ?ps = "JObj [(''handle'', JStr h)]"
  assume a: "req_path req = ''/collections/'' @ h
          \<and> h \<notin> {''all'', ''paginated'', ''showcased''}
          \<and> shop_collections_find (new_ShopClient d options) (JStr h) w = (Inr v, w')"
  let ?c = "\<lparr> headers = Some (req_headers req), params = ?ps,
             query = JObj (req_query req), body = req_body req \<rparr>"
  have r: "findRoute router (req_method req) (req_path req) = Some (getCollection ?gs, ?ps)"
    using a assms(2) route_collection_handle[OF assms(1,5,6)] by simp
  have v: "validate (getCollection ?gs) req ?ps = Inr ?c"
    by (simp add: validate_def getCollection_def)
  have f: "shop_collections_find (new_ShopClient d options) (getProp ?ps ''handle'') w
           = (Inr v, w')"
    using a by simp
  note g = absent_find_throws [OF assms(1) r v assms(3,4,7), of w w' cs]
  from g f show "router_handler router req (w, cs)
      = (Failed (Error ''Collection not found''),
         (w', cs @ [Call ''collections.find'' [JStr h]]))"
    and "status (fst (router_handler router req (w, cs))) = 500"
    by simp_all
qed

text \<open>The tests' handle \<open>missing\<close>, for which the mock resolves to \<open>null\<close>.\<close>

theorem find_by_handle_absent_fails_witness:
  "router_handler mockRouter
     \<lparr> req_method = ''GET'', req_path = ''/products/missing'', req_headers = mockHeaders,
       req_query = [], req_body = JUndefined \<rparr> ((), [])
   = (Failed (Error ''Product not found''),
      ((), [Call ''products.find'' [JStr ''missing'', JObj [(''currency'', JUndefined)]]]))
   \<and> router_handler mockRouter
     \<lparr> req_method = ''GET'', req_path = ''/collections/missing'', req_headers = mockHeaders,
       req_query = [], req_body = JUndefined \<rparr> ((), [])
   = (Failed (Error ''Collection not found''),
      ((), [Call ''collections.find'' [JStr ''missing'']]))"
proof -
  let ?p = "\<lparr> req_method = ''GET'', req_path = ''/products/missing'', req_headers = mockHeaders,
       req_query = [], req_body = JUndefined \<rparr>"
  let ?c = "\<lparr> req_method = ''GET'', req_path = ''/collections/missing'',
       req_headers = mockHeaders, req_query = [], req_body = JUndefined \<rparr>"
  have h1: "betterShop MockShopClient () = Inr mockRouter"
    by (rule betterShop_mock)
  have p2: "req_method ?p = ''GET''" and c2: "req_method ?c = ''GET''"
    by simp_all
  have p3: "map_of (req_headers ?p) ''x-shop-domain'' = Some ''mock.myshopify.com''"
    and c3: "map_of (req_headers ?c) ''x-shop-domain'' = Some ''mock.myshopify.com''"
    by (simp_all add: mockHeaders_def)
  have h4: "''mock.myshopify.com'' \<noteq> []" and h5: "''missing'' \<noteq> []"
    and h6: "CHR ''/'' \<notin> set ''missing''" and h7: "\<not> truthy JNull"
    by simp_all
  have pf: "req_path ?p = ''/products/'' @ ''missing''
      \<and> ''missing'' \<notin> {''all'', ''paginated'', ''showcased'', ''filters''}
      \<and> (map_of (req_query ?p) ''currency'' = None
           \<or> (\<exists>cur. map_of (req_query ?p) ''currency'' = Some (JStr cur)))
      \<and> shop_products_find (MockShopClient ''mock.myshopify.com'' ()) (JStr ''missing'')
           (JObj [(''currency'', getProp (JObj (req_query ?p)) ''currency'')]) ()
          = (Inr JNull, ())"
    by (simp add: mock_defs)
  have cf: "req_path ?c = ''/collections/'' @ ''missing''
      \<and> ''missing'' \<notin> {''all'', ''paginated'', ''showcased''}
      \<and> shop_collections_find (MockShopClient ''mock.myshopify.com'' ()) (JStr ''missing'') ()
          = (Inr JNull, ())"
    by (simp add: mock_defs)
  have "router_handler mockRouter ?p ((), [])
      = (Failed (Error ''Product not found''),
         ((), [] @ [Call ''products.find''
            [JStr ''missing'',
             JObj [(''currency'', getProp (JObj (req_query ?p)) ''currency'')]]]))"
    using find_by_handle_absent_fails [OF h1 p2 p3 h4 h5 h6 h7, of "()" "()" "[]"] pf
    by blast
  moreover have "router_handler mockRouter ?c ((), [])
      = (Failed (Error ''Collection not found''),
         ((), [] @ [Call ''collections.find'' [JStr ''missing'']]))"
    using find_by_handle_absent_fails [OF h1 c2 c3 h4 h5 h6 h7, of "()" "()" "[]"] cf
    by blast
  ultimately show ?thesis
    by simp
qed

section \<open>Coercion of the query\<close>



text \<open>
  Claim C6, as amended. With the tenant header present and the query valid, an optional
  parameter \<open>page\<close>, \<open>limit\<close> or \<open>currency\<close> that the request omits is \<open>undefined\<close>
  in the options object handed to the capability, for each of the six operations that
  take such parameters. An omitted \<open>force\<close> is handed to the store-info capability as
  \<open>false\<close>: the query of \<open>GET /info\<close> is piped through \<open>force: v.force === "true"\<close>.
\<close>

theorem omitted_optional_parameters:
  assumes "betterShop new_ShopClient options = Inr router"
    and "findRoute router (req_method req) (req_path req) = Some (e, ps)"
    and "validate e req ps = Inr c"
    and "map_of (req_headers req) ''x-shop-domain'' = Some d" and "d \<noteq> []"
    and "map_of (req_query req) k = None"
  shows "(k \<in> {''page'', ''limit'', ''currency''}
          \<and> e \<in> {getAllProducts (makeGetShop new_ShopClient options),
                  getPaginatedProducts (makeGetShop new_ShopClient options),
                  getProduct (makeGetShop new_ShopClient options),
                  getPaginatedCollections (makeGetShop new_ShopClient options),
                  getCollectionProductsAll (makeGetShop new_ShopClient options),
                  getCollectionProductsPaginated (makeGetShop new_ShopClient options)}
          \<longrightarrow> (\<exists>name args opts.
                 snd (snd (router_handler router req (w, cs))) = cs @ [Call name (args @ [opts])]
                 \<and> getProp opts k = JUndefined))
       \<and> (k = ''force'' \<and> e = getInfo (makeGetShop new_ShopClient options)
          \<longrightarrow> snd (snd (router_handler router req (w, cs)))
              = cs @ [Call ''getInfo'' [JObj [(''force'', JBool False)]]])"
proof -
  let ?gs = "makeGetShop new_ShopClient options"
  have hs: "headers c = Some (req_headers req)"
    using assms(3) by (rule validate_headers)
  have gs: "?gs (Some (req_headers req)) = Inr (new_ShopClient d options)"
    using assms(4,5) by (rule makeGetShop_present)
  have run: "snd (snd (router_handler router req (w, cs))) = snd (snd (handler e c (w, cs)))"
    using assms(2,3) by (simp add: handled_log)
  have q: "query c = (case query_schema e of None \<Rightarrow> JObj (req_query req)
                    | Some (s, f) \<Rightarrow> f (JObj (req_query req)))"
    using assms(3) by (rule validate_query)
  have undef: "getProp (JObj (req_query req)) k = JUndefined"
    using assms(6) by simp
  have num: "numberOrUndefined JUndefined = JUndefined"
    by (simp add: numberOrUndefined_def)
  show ?thesis
  proof (intro conjI impI)
    assume a: "k \<in> {''page'', ''limit'', ''currency''}
          \<and> e \<in> {getAllProducts ?gs, getPaginatedProducts ?gs, getProduct ?gs,
                  getPaginatedCollections ?gs, getCollectionProductsAll ?gs,
                  getCollectionProductsPaginated ?gs}"
    then have kk: "k = ''page'' \<or> k = ''limit'' \<or> k = ''currency''"
      by blast
    from a consider "e = getAllProducts ?gs" | "e = getPaginatedProducts ?gs"
      | "e = getProduct ?gs" | "e = getPaginatedCollections ?gs"
      | "e = getCollectionProductsAll ?gs" | "e = getCollectionProductsPaginated ?gs"
      by blast
    then show "\<exists>name args opts.
        snd (snd (router_handler router req (w, cs))) = cs @ [Call name (args @ [opts])]
        \<and> getProp opts k = JUndefined"
    proof cases
      case 1
      let ?o = "JObj [(''currency'', getProp (JObj (req_query req)) ''currency'')]"
      have "snd (snd (handler e c (w, cs))) = cs @ [Call ''products.all'' ([] @ [?o])]"
        using q by (simp add: 1 getAllProducts_def hs gs Let_def log_of_await)
      moreover have "getProp ?o k = JUndefined"
        using kk undef by auto
      ultimately show ?thesis
        unfolding run by blast
    next
      case 2
      let ?o = "JObj [(''page'', numberOrUndefined (getProp (JObj (req_query req)) ''page'')),
                      (''limit'', numberOrUndefined (getProp (JObj (req_query req)) ''limit'')),
                      (''currency'', getProp (JObj (req_query req)) ''currency'')]"
      have "snd (snd (handler e c (w, cs))) = cs @ [Call ''products.paginated'' ([] @ [?o])]"
        using q by (simp add: 2 getPaginatedProducts_def hs gs Let_def log_of_await)
      moreover have "getProp ?o k = JUndefined"
        using kk undef num by auto
      ultimately show ?thesis
        unfolding run by blast
    next
      case 3
      let ?o = "JObj [(''currency'', getProp (JObj (req_query req)) ''currency'')]"
      have "snd (snd (handler e c (w, cs)))
            = cs @ [Call ''products.find'' ([getProp (params c) ''handle''] @ [?o])]"
        using q
        by (cases "shop_products_find (new_ShopClient d options) (getProp (params c) ''handle'')
               ?o w";
            cases "fst (shop_products_find (new_ShopClient d options)
               (getProp (params c) ''handle'') ?o w)")
          (auto simp: 3 getProduct_def hs gs Let_def await_def throw_def)
      moreover have "getProp ?o k = JUndefined"
        using kk undef by auto
      ultimately show ?thesis
        unfolding run by blast
    next
      case 4
      let ?o = "JObj [(''page'', numberOrUndefined (getProp (JObj (req_query req)) ''page'')),
                      (''limit'', numberOrUndefined (getProp (JObj (req_query req)) ''limit''))]"
      have "snd (snd (handler e c (w, cs))) = cs @ [Call ''collections.paginated'' ([] @ [?o])]"
        using q by (simp add: 4 getPaginatedCollections_def hs gs Let_def log_of_await)
      moreover have "getProp ?o k = JUndefined"
        using kk undef num by auto
      ultimately show ?thesis
        unfolding run by blast
    next
      case 5
      let ?o = "JObj [(''currency'', getProp (JObj (req_query req)) ''currency'')]"
      have "snd (snd (handler e c (w, cs)))
            = cs @ [Call ''collections.products.all'' ([getProp (params c) ''handle''] @ [?o])]"
        using q by (simp add: 5 getCollectionProductsAll_def hs gs Let_def log_of_await)
      moreover have "getProp ?o k = JUndefined"
        using kk undef by auto
      ultimately show ?thesis
        unfolding run by blast
    next
      case 6
      let ?o = "JObj [(''page'', numberOrUndefined (getProp (JObj (req_query req)) ''page'')),
                      (''limit'', numberOrUndefined (getProp (JObj (req_query req)) ''limit'')),
                      (''currency'', getProp (JObj (req_query req)) ''currency'')]"
      have "snd (snd (handler e c (w, cs)))
            = cs @ [Call ''collections.products.paginated''
                      ([getProp (params c) ''handle''] @ [?o])]"
        using q by (simp add: 6 getCollectionProductsPaginated_def hs gs Let_def log_of_await)
      moreover have "getProp ?o k = JUndefined"
        using kk undef num by auto
      ultimately show ?thesis
        unfolding run by blast
    qed
  next
    assume a: "k = ''force'' \<and> e = getInfo ?gs"
    have "query c = JObj [(''force'', JBool False)]"
      using q a undef by (simp add: getInfo_def)
    then have "snd (snd (handler e c (w, cs)))
          = cs @ [Call ''getInfo'' [JObj [(''force'', JBool False)]]]"
      using a by (simp add: getInfo_def hs gs Let_def log_of_await)
    then show "snd (snd (router_handler router req (w, cs)))
          = cs @ [Call ''getInfo'' [JObj [(''force'', JBool False)]]]"
      by (simp add: run)
  qed
qed

text \<open>\<open>GET /collections/paginated?limit=5\<close> omits \<open>page\<close>; \<open>GET /info\<close> omits \<open>force\<close>.\<close>

theorem omitted_optional_parameters_witness:
  "(\<exists>name args opts.
      snd (snd (router_handler mockRouter
        \<lparr> req_method = ''GET'', req_path = ''/collections/paginated'',
          req_headers = mockHeaders, req_query = [(''limit'', JStr ''5'')],
          req_body = JUndefined \<rparr> ((), []))) = [Call name (args @ [opts])]
      \<and> getProp opts ''page'' = JUndefined)
   \<and> snd (snd (router_handler mockRouter
        \<lparr> req_method = ''GET'', req_path = ''/info'', req_headers = mockHeaders,
          req_query = [], req_body = JUndefined \<rparr> ((), [])))
     = [Call ''getInfo'' [JObj [(''force'', JBool False)]]]"
proof -
  let ?r1 = "\<lparr> req_method = ''GET'', req_path = ''/collections/paginated'',
          req_headers = mockHeaders, req_query = [(''limit'', JStr ''5'')],
          req_body = JUndefined \<rparr>"
  let ?r2 = "\<lparr> req_method = ''GET'', req_path = ''/info'', req_headers = mockHeaders,
          req_query = [], req_body = JUndefined \<rparr>"
  let ?gs = "makeGetShop MockShopClient () :: Headers option \<Rightarrow> error + unit ShopClient"
  have h1: "betterShop MockShopClient () = Inr mockRouter"
    by (rule betterShop_mock)
  have a2: "findRoute mockRouter (req_method ?r1) (req_path ?r1)
            = Some (getPaginatedCollections ?gs, JObj [])"
    by (simp add: mock_route_paginated_collections)
  have b2: "findRoute mockRouter (req_method ?r2) (req_path ?r2) = Some (getInfo ?gs, JObj [])"
    by (simp add: mock_route_info)
  have a3: "validate (getPaginatedCollections ?gs) ?r1 (JObj []) =
      Inr \<lparr> headers = Some mockHeaders, params = JObj [],
            query = JObj [(''page'', JUndefined), (''limit'', JNum (Number_str ''5''))],
            body = JUndefined \<rparr>"
    by (simp add: validate_def getPaginatedCollections_def numberOrUndefined_def)
  have b3: "validate (getInfo ?gs) ?r2 (JObj []) =
      Inr \<lparr> headers = Some mockHeaders, params = JObj [],
            query = JObj [(''force'', JBool False)], body = JUndefined \<rparr>"
    by (simp add: validate_def getInfo_def)
  have a4: "map_of (req_headers ?r1) ''x-shop-domain'' = Some ''mock.myshopify.com''"
    and b4: "map_of (req_headers ?r2) ''x-shop-domain'' = Some ''mock.myshopify.com''"
    by (simp_all add: mockHeaders_def)
  have h5: "''mock.myshopify.com'' \<noteq> []"
    by simp
  have a6: "map_of (req_query ?r1) ''page'' = None"
    and b6: "map_of (req_query ?r2) ''force'' = None"
    by simp_all
  show ?thesis
    using omitted_optional_parameters [OF h1 a2 a3 a4 h5 a6, of "()" "[]"]
      omitted_optional_parameters [OF h1 b2 b3 b4 h5 b6, of "()" "[]"]
    by simp
qed

text \<open>\<open>GET /info\<close> without \<open>force\<close>: the capability receives \<open>force: false\<close>, not absent.\<close>

theorem omitted_force_counterexample:
  "map_of (req_query
     \<lparr> req_method = ''GET'', req_path = ''/info'', req_headers = mockHeaders, req_query = [],
       req_body = JUndefined \<rparr>) ''force'' = None
   \<and> snd (snd (router_handler mockRouter
     \<lparr> req_method = ''GET'', req_path = ''/info'', req_headers = mockHeaders, req_query = [],
       req_body = JUndefined \<rparr> ((), [])))
     = [Call ''getInfo'' [JObj [(''force'', JBool False)]]]"
  by (simp add: router_handler_def mockRouter_eq route_defs endpoint_defs validate_def
      handler_defs mock_defs)

text \<open>
  The requests that reach the three paginated operations: \<open>GET /products/paginated\<close>
  (\<open>route_paginated_products\<close>), \<open>GET /collections/paginated\<close> and
  \<open>GET /collections/h/products/paginated\<close> for a handle \<open>h\<close> of one segment.
\<close>

lemma splitOn_append:
  "c \<notin> set s \<Longrightarrow> splitOn c (s @ c # t) = s # splitOn c t"
  by (induction s) (auto split: list.splits)

lemma segments_collection_products_paginated:
  assumes "CHR ''/'' \<notin> set h"
  shows "segments (''/collections/'' @ h @ ''/products/paginated'')
         = [''collections'', h, ''products'', ''paginated'']"
proof -
  have "splitOn CHR ''/'' (h @ CHR ''/'' # ''products/paginated'')
        = h # splitOn CHR ''/'' ''products/paginated''"
    using assms by (rule splitOn_append)
  then show ?thesis
    by (simp add: segments_def)
qed

lemma route_paginated_collections:
  assumes "betterShop new_ShopClient options = Inr router"
  shows "findRoute router ''GET'' ''/collections/paginated'' =
     Some (getPaginatedCollections (makeGetShop new_ShopClient options), JObj [])"
proof -
  have "router = betterShop_endpoints new_ShopClient options
                 @ [(''openapi'', openapi ''/api/reference'')]"
    using assms by (simp add: betterShop_Inr)
  then show ?thesis
    by (simp add: route_defs endpoint_defs)
qed

lemma route_collection_products_paginated:
  assumes "betterShop new_ShopClient options = Inr router"
    and "h \<noteq> []" and "CHR ''/'' \<notin> set h"
  shows "findRoute router ''GET'' (''/collections/'' @ h @ ''/products/paginated'') =
     Some (getCollectionProductsPaginated (makeGetShop new_ShopClient options),
           JObj [(''handle'', JStr h)])"
proof -
  have r: "router = betterShop_endpoints new_ShopClient options
                 @ [(''openapi'', openapi ''/api/reference'')]"
    using assms(1) by (simp add: betterShop_Inr)
  have seg: "segments (''/collections/'' @ h @ ''/products/paginated'')
         = [''collections'', h, ''products'', ''paginated'']"
    using assms(3) by (rule segments_collection_products_paginated)
  show ?thesis
    unfolding r findRoute_def matching_def seg
    using assms(2)
    by (auto simp: betterShop_endpoints_def builder_defs endpoint_defs Let_def openapi_def
        segments_def isParam_def preferRoute_def)
qed

text \<open>
  Claim C10. In the three paginated operations, with the tenant header present, every
  string value of \<open>page\<close> or \<open>limit\<close> satisfies the definition \<open>string|number\<close>: when
  the parameters of the query are strings or absent the request does not end in a
  validation failure. The capability receives \<open>Number\<close> of a string that is not empty,
  which is \<open>NaN\<close> for a string that is not numeric, such as \<open>abc\<close>.
\<close>

theorem paginated_strings_pass_validation:
  assumes "betterShop new_ShopClient options = Inr router"
    and "findRoute router (req_method req) (req_path req) = Some (e, ps)"
    and "e \<in> {getPaginatedProducts (makeGetShop new_ShopClient options),
              getPaginatedCollections (makeGetShop new_ShopClient options),
              getCollectionProductsPaginated (makeGetShop new_ShopClient options)}"
    and "map_of (req_headers req) ''x-shop-domain'' = Some d" and "d \<noteq> []"
    and "map_of (req_query req) ''page'' = None
         \<or> (\<exists>p. map_of (req_query req) ''page'' = Some (JStr p))"
    and "map_of (req_query req) ''limit'' = None
         \<or> (\<exists>l. map_of (req_query req) ''limit'' = Some (JStr l))"
    and "map_of (req_query req) ''currency'' = None
         \<or> (\<exists>cur. map_of (req_query req) ''currency'' = Some (JStr cur))"
    and "k = ''page'' \<or> k = ''limit''"
    and "map_of (req_query req) k = Some (JStr s)"
  shows "status (fst (router_handler router req (w, cs))) \<noteq> 400
       \<and> (\<exists>name args opts.
             snd (snd (router_handler router req (w, cs))) = cs @ [Call name (args @ [opts])]
             \<and> getProp opts k = (if s = [] then JUndefined else JNum (Number_str s))
             \<and> (s \<noteq> [] \<and> Number_str s = NaN \<longrightarrow> getProp opts k = JNum NaN))"
proof -
  let ?gs = "makeGetShop new_ShopClient options"
  let ?q = "JObj (req_query req)"
  let ?pl = "TUnion TString TNumber"
  have gs: "?gs (Some (req_headers req)) = Inr (new_ShopClient d options)"
    using assms(4,5) by (rule makeGetShop_present)
  have cp: "case map_of (req_query req) ''page'' of None \<Rightarrow> True | Some x \<Rightarrow> conforms ?pl x"
    and cl: "case map_of (req_query req) ''limit'' of None \<Rightarrow> True | Some x \<Rightarrow> conforms ?pl x"
    and cc: "case map_of (req_query req) ''currency'' of None \<Rightarrow> True
             | Some x \<Rightarrow> conforms TString x"
    using assms(6,7,8) by auto
  have coerced: "numberOrUndefined (getProp ?q k) = (if s = [] then JUndefined else JNum (Number_str s))"
    using assms(10) by (simp add: numberOrUndefined_def)
  obtain c where v: "validate e req ps = Inr c"
    and q: "query c = (case query_schema e of None \<Rightarrow> ?q | Some (sch, f) \<Rightarrow> f ?q)"
    and hs: "headers c = Some (req_headers req)"
  proof -
    have "validate e req ps = Inr \<lparr> headers = Some (req_headers req), params = ps,
        query = (case query_schema e of None \<Rightarrow> ?q | Some (sch, f) \<Rightarrow> f ?q),
        body = req_body req \<rparr>"
      using assms(3) cp cl cc
      by (auto simp: validate_def getPaginatedProducts_def getPaginatedCollections_def
          getCollectionProductsPaginated_def)
    then show ?thesis
      using that by simp
  qed
  have run: "snd (snd (router_handler router req (w, cs))) = snd (snd (handler e c (w, cs)))"
    using assms(2) v by (simp add: handled_log)
  have st: "status (fst (router_handler router req (w, cs))) \<noteq> 400"
    using assms(2) v by (rule handled_status)
  from assms(3) consider "e = getPaginatedProducts ?gs" | "e = getPaginatedCollections ?gs"
    | "e = getCollectionProductsPaginated ?gs"
    by blast
  then have "\<exists>name args opts.
      snd (snd (handler e c (w, cs))) = cs @ [Call name (args @ [opts])]
      \<and> getProp opts k = numberOrUndefined (getProp ?q k)"
  proof cases
    case 1
    let ?o = "JObj [(''page'', numberOrUndefined (getProp ?q ''page'')),
                    (''limit'', numberOrUndefined (getProp ?q ''limit'')),
                    (''currency'', getProp ?q ''currency'')]"
    have "snd (snd (handler e c (w, cs))) = cs @ [Call ''products.paginated'' ([] @ [?o])]"
      using q by (simp add: 1 getPaginatedProducts_def hs gs Let_def log_of_await)
    moreover have "getProp ?o k = numberOrUndefined (getProp ?q k)"
      using assms(9) by auto
    ultimately show ?thesis
      by blast
  next
    case 2
    let ?o = "JObj [(''page'', numberOrUndefined (getProp ?q ''page'')),
                    (''limit'', numberOrUndefined (getProp ?q ''limit''))]"
    have "snd (snd (handler e c (w, cs))) = cs @ [Call ''collections.paginated'' ([] @ [?o])]"
      using q by (simp add: 2 getPaginatedCollections_def hs gs Let_def log_of_await)
    moreover have "getProp ?o k = numberOrUndefined (getProp ?q k)"
      using assms(9) by auto
    ultimately show ?thesis
      by blast
  next
    case 3
    let ?o = "JObj [(''page'', numberOrUndefined (getProp ?q ''page'')),
                    (''limit'', numberOrUndefined (getProp ?q ''limit'')),
                    (''currency'', getProp ?q ''currency'')]"
    have "snd (snd (handler e c (w, cs)))
          = cs @ [Call ''collections.products.paginated''
                    ([getProp (params c) ''handle''] @ [?o])]"
      using q by (simp add: 3 getCollectionProductsPaginated_def hs gs Let_def log_of_await)
    moreover have "getProp ?o k = numberOrUndefined (getProp ?q k)"
      using assms(9) by auto
    ultimately show ?thesis
      by blast
  qed
  then show ?thesis
    using st unfolding run coerced by auto
qed

text \<open>The query string \<open>page=abc\<close>.\<close>

theorem paginated_strings_pass_validation_witness:
  "status (fst (router_handler mockRouter
      \<lparr> req_method = ''GET'', req_path = ''/products/paginated'', req_headers = mockHeaders,
        req_query = [(''page'', JStr ''abc'')], req_body = JUndefined \<rparr> ((), []))) \<noteq> 400
   \<and> (\<exists>name args opts.
        snd (snd (router_handler mockRouter
          \<lparr> req_method = ''GET'', req_path = ''/products/paginated'',
            req_headers = mockHeaders, req_query = [(''page'', JStr ''abc'')],
            req_body = JUndefined \<rparr> ((), []))) = [Call name (args @ [opts])]
        \<and> getProp opts ''page'' = JNum NaN)"
proof -
  let ?req = "\<lparr> req_method = ''GET'', req_path = ''/products/paginated'',
        req_headers = mockHeaders, req_query = [(''page'', JStr ''abc'')],
        req_body = JUndefined \<rparr>"
  let ?gs = "makeGetShop MockShopClient () :: Headers option \<Rightarrow> error + unit ShopClient"
  have h1: "betterShop MockShopClient () = Inr mockRouter"
    by (rule betterShop_mock)
  have h2: "findRoute mockRouter (req_method ?req) (req_path ?req)
            = Some (getPaginatedProducts ?gs, JObj [])"
    by (simp add: mock_route_paginated_products)
  have h3: "getPaginatedProducts ?gs \<in> {getPaginatedProducts ?gs, getPaginatedCollections ?gs,
              getCollectionProductsPaginated ?gs}"
    by simp
  have h4: "map_of (req_headers ?req) ''x-shop-domain'' = Some ''mock.myshopify.com''"
    by (simp add: mockHeaders_def)
  have h5: "''mock.myshopify.com'' \<noteq> []"
    by simp
  have h6: "map_of (req_query ?req) ''page'' = None
         \<or> (\<exists>p. map_of (req_query ?req) ''page'' = Some (JStr p))"
    and h7: "map_of (req_query ?req) ''limit'' = None
         \<or> (\<exists>l. map_of (req_query ?req) ''limit'' = Some (JStr l))"
    and h8: "map_of (req_query ?req) ''currency'' = None
         \<or> (\<exists>cur. map_of (req_query ?req) ''currency'' = Some (JStr cur))"
    by simp_all
  have h9: "''page'' = ''page'' \<or> ''page'' = ''limit''"
    by simp
  have h10: "map_of (req_query ?req) ''page'' = Some (JStr ''abc'')"
    by simp
  show ?thesis
    using paginated_strings_pass_validation [OF h1 h2 h3 h4 h5 h6 h7 h8 h9 h10, of "()" "[]"]
      Number_str_abc
    by simp
qed

section \<open>Clearing the cache\<close>

text \<open>
  Claim C9. A \<open>POST /info/clear-cache\<close> request that carries the tenant header (a value
  that is not empty, which is what the resolver accepts) is answered with the body
  \<open>{ success: true }\<close> and status 200, whatever the state of the world and of its caches,
  and the same request on the state it leaves is answered the same.
\<close>

theorem clear_cache_always_succeeds:
  assumes "betterShop new_ShopClient options = Inr router"
    and "req_method req = ''POST''" and "req_path req = ''/info/clear-cache''"
    and "map_of (req_headers req) ''x-shop-domain'' = Some d" and "d \<noteq> []"
  shows "fst (router_handler router req (w, cs)) = Handled (Json (JObj [(''success'', JBool True)]))
         \<and> status (fst (router_handler router req (w, cs))) = 200
         \<and> fst (router_handler router req (snd (router_handler router req (w, cs))))
             = Handled (Json (JObj [(''success'', JBool True)]))"
proof -
  have run: "router_handler router req (w0, cs0) =
      (Handled (Json (JObj [(''success'', JBool True)])),
       (shop_clearInfoCache (new_ShopClient d options) w0, cs0 @ [Call ''clearInfoCache'' []]))"
    for w0 cs0
    using assms(2,3) route_clear_cache[OF assms(1)]
    by (simp add: router_handler_def validate_def clearInfoCache_def
        makeGetShop_present[OF assms(4,5)])
  show ?thesis
    by (simp add: run)
qed

text \<open>The request on the mock, twice.\<close>

theorem clear_cache_always_succeeds_witness:
  "fst (router_handler mockRouter
     \<lparr> req_method = ''POST'', req_path = ''/info/clear-cache'', req_headers = mockHeaders,
       req_query = [], req_body = JUndefined \<rparr> ((), []))
   = Handled (Json (JObj [(''success'', JBool True)]))
   \<and> fst (router_handler mockRouter
     \<lparr> req_method = ''POST'', req_path = ''/info/clear-cache'', req_headers = mockHeaders,
       req_query = [], req_body = JUndefined \<rparr>
     (snd (router_handler mockRouter
       \<lparr> req_method = ''POST'', req_path = ''/info/clear-cache'', req_headers = mockHeaders,
         req_query = [], req_body = JUndefined \<rparr> ((), []))))
   = Handled (Json (JObj [(''success'', JBool True)]))"
proof -
  let ?req = "\<lparr> req_method = ''POST'', req_path = ''/info/clear-cache'',
       req_headers = mockHeaders, req_query = [], req_body = JUndefined \<rparr>"
  have h1: "betterShop MockShopClient () = Inr mockRouter"
    by (rule betterShop_mock)
  have h2: "req_method ?req = ''POST''" and h3: "req_path ?req = ''/info/clear-cache''"
    by simp_all
  have h4: "map_of (req_headers ?req) ''x-shop-domain'' = Some ''mock.myshopify.com''"
    by (simp add: mockHeaders_def)
  have h5: "''mock.myshopify.com'' \<noteq> []"
    by simp
  show ?thesis
    using clear_cache_always_succeeds [OF h1 h2 h3 h4 h5, of "()" "[]"] by simp
qed

end
